theory Spec2Isabelle
  imports Complex_Main "HOL-Library.AList" "HOL-Library.Stream"
begin

section \<open>Numbers and vectors\<close>

text \<open>
  The source computes with JavaScript numbers. They are modelled as real numbers:
  rounding, NaN and the infinities are outside the model. Where the source relies on
  \<open>Infinity\<close> as a default (\<open>?? Infinity\<close>) the model uses \<open>None\<close> for it, and
  where the source divides by a value that can be zero the model returns \<open>None\<close>
  for the whole call, since the JavaScript result (NaN) is no real number.
  A \<open>[number, number, number]\<close> is a triple.
\<close>

type_synonym vec3 = "real \<times> real \<times> real"

section \<open>Behavior tree system\<close>

datatype BehaviorStatus = SUCCESS | FAILURE | RUNNING

text \<open>
  A behavior node is an object with per-agent maps keyed by the agent's id. The classes
  of the source are the constructors of one datatype; every constructor carries the
  fields of its class, the per-agent \<open>Map\<close> last. A node object occurs at one position
  of a tree, so a tree is a value and \<open>execute\<close> and \<open>reset\<close> return the updated tree.

  An \<open>Agent\<close> argument of the source is a reference to a mutable object whose id never
  changes. The model passes the id (\<open>agent.getId()\<close>) and threads a world \<open>'w\<close>: the
  mutable state that the closures of \<open>Condition\<close> and \<open>Action\<close> reach through the
  agent. A closure or hook that does not return normally (it throws, or leaves the
  number model) yields \<open>None\<close>, and so does every call that runs it; the state after
  such a call is not modelled.
\<close>

datatype 'w BehaviorNode =
    Sequence "'w BehaviorNode list" "string \<rightharpoonup> nat"
  | Selector "'w BehaviorNode list" "string \<rightharpoonup> nat"
  | Inverter "'w BehaviorNode"
  | Condition "'w \<Rightarrow> bool"
  | Action "'w \<Rightarrow> real \<Rightarrow> (BehaviorStatus \<times> 'w) option"
           "('w \<Rightarrow> 'w option) option" "('w \<Rightarrow> 'w option) option" "string \<rightharpoonup> bool"
  | Parallel "'w BehaviorNode list" int "string \<rightharpoonup> BehaviorStatus list"
  | RepeatUntilFailure "'w BehaviorNode"
  | Wait real "string \<rightharpoonup> real"

text \<open>The constructors of the classes: every per-agent map starts empty.\<close>

definition newSequence :: "'w BehaviorNode list \<Rightarrow> 'w BehaviorNode" where
  "newSequence children = Sequence children Map.empty"

definition newSelector :: "'w BehaviorNode list \<Rightarrow> 'w BehaviorNode" where
  "newSelector children = Selector children Map.empty"

definition newAction :: "('w \<Rightarrow> real \<Rightarrow> (BehaviorStatus \<times> 'w) option) \<Rightarrow>
    ('w \<Rightarrow> 'w option) option \<Rightarrow> ('w \<Rightarrow> 'w option) option \<Rightarrow> 'w BehaviorNode" where
  "newAction action onEnter onExit = Action action onEnter onExit Map.empty"



definition newWait :: "real \<Rightarrow> 'w BehaviorNode" where
  "newWait duration = Wait duration Map.empty"

text \<open>An optional hook: \<open>if (this.onExit) this.onExit(agent)\<close>.\<close>

definition callHook :: "('w \<Rightarrow> 'w option) option \<Rightarrow> 'w \<Rightarrow> 'w option" where
  "callHook hook w = (case hook of None \<Rightarrow> Some w | Some h \<Rightarrow> h w)"

text \<open>\<open>this.isRunning.get(agentId) || false\<close>\<close>

definition wasRunning :: "(string \<rightharpoonup> bool) \<Rightarrow> string \<Rightarrow> bool" where
  "wasRunning isRunning agentId = (case isRunning agentId of None \<Rightarrow> False | Some b \<Rightarrow> b)"

subsection \<open>reset\<close>

fun reset :: "'w BehaviorNode \<Rightarrow> string \<Rightarrow> 'w \<Rightarrow> ('w BehaviorNode \<times> 'w) option"
  and resetChildren :: "'w BehaviorNode list \<Rightarrow> string \<Rightarrow> 'w \<Rightarrow> ('w BehaviorNode list \<times> 'w) option"
where
  "reset (Sequence children currentIndex) agentId w =
     (case resetChildren children agentId w of
        None \<Rightarrow> None
      | Some (children', w') \<Rightarrow> Some (Sequence children' (currentIndex(agentId := None)), w'))"
| "reset (Selector children currentIndex) agentId w =
     (case resetChildren children agentId w of
        None \<Rightarrow> None
      | Some (children', w') \<Rightarrow> Some (Selector children' (currentIndex(agentId := None)), w'))"
| "reset (Inverter child) agentId w =
     (case reset child agentId w of
        None \<Rightarrow> None
      | Some (child', w') \<Rightarrow> Some (Inverter child', w'))"
| "reset (Condition condition) agentId w = Some (Condition condition, w)"
| "reset (Action action onEnter onExit isRunning) agentId w =
     (case (if wasRunning isRunning agentId then callHook onExit w else Some w) of
        None \<Rightarrow> None
      | Some w' \<Rightarrow> Some (Action action onEnter onExit (isRunning(agentId := None)), w'))"
| "reset (Parallel children requiredSuccesses statuses) agentId w =
     (case resetChildren children agentId w of
        None \<Rightarrow> None
      | Some (children', w') \<Rightarrow>
          Some (Parallel children' requiredSuccesses (statuses(agentId := None)), w'))"
| "reset (RepeatUntilFailure child) agentId w =
     (case reset child agentId w of
        None \<Rightarrow> None
      | Some (child', w') \<Rightarrow> Some (RepeatUntilFailure child', w'))"
| "reset (Wait duration timeElapsed) agentId w =
     Some (Wait duration (timeElapsed(agentId := None)), w)"
| "resetChildren [] agentId w = Some ([], w)"
| "resetChildren (child # rest) agentId w =
     (case reset child agentId w of
        None \<Rightarrow> None
      | Some (child', w') \<Rightarrow>
          (case resetChildren rest agentId w' of
             None \<Rightarrow> None
           | Some (rest', w'') \<Rightarrow> Some (child' # rest', w'')))"

subsection \<open>execute\<close>

text \<open>
  The counters of \<open>Parallel.execute\<close>: \<open>runningCount\<close>, \<open>successCount\<close>,
  \<open>failureCount\<close>. A status read beyond the end of the array is \<open>undefined\<close>, which is
  neither RUNNING nor SUCCESS and so counts as a failure.
\<close>

definition countStatus :: "BehaviorStatus list \<Rightarrow> nat \<Rightarrow> nat \<times> nat \<times> nat \<Rightarrow> nat \<times> nat \<times> nat" where
  "countStatus statuses index counts =
     (case counts of (runningCount, successCount, failureCount) \<Rightarrow>
        if index < length statuses \<and> statuses ! index = RUNNING
          then (runningCount + 1, successCount, failureCount)
        else if index < length statuses \<and> statuses ! index = SUCCESS
          then (runningCount, successCount + 1, failureCount)
        else (runningCount, successCount, failureCount + 1))"

lemma size_nth_less [termination_simp]:
  "index < length children \<Longrightarrow> size (children ! index) < Suc (size_list size children)"
proof (induction children arbitrary: index)
  case Nil
  then show ?case by simp
next
  case (Cons c cs)
  show ?case
  proof (cases index)
    case 0
    then show ?thesis by simp
  next
    case (Suc i)
    with Cons.prems have "i < length cs" by simp
    from Cons.IH [OF this] Suc show ?thesis by simp
  qed
qed

function (sequential) execute ::
    "'w BehaviorNode \<Rightarrow> string \<Rightarrow> 'w \<Rightarrow> real \<Rightarrow> (BehaviorStatus \<times> 'w BehaviorNode \<times> 'w) option"
  and parallelForEach ::
    "'w BehaviorNode list \<Rightarrow> nat \<Rightarrow> BehaviorStatus list \<Rightarrow> string \<Rightarrow> 'w \<Rightarrow> real \<Rightarrow>
       nat \<times> nat \<times> nat \<Rightarrow>
       ('w BehaviorNode list \<times> BehaviorStatus list \<times> 'w \<times> (nat \<times> nat \<times> nat)) option"
where
  "execute (Sequence children currentIndex) agentId w deltaTime =
     (let currentIndex1 =
            (if currentIndex agentId = None then currentIndex(agentId \<mapsto> 0) else currentIndex);
          index = (case currentIndex1 agentId of None \<Rightarrow> 0 | Some i \<Rightarrow> i)
      in if index \<ge> length children then Some (SUCCESS, Sequence children currentIndex1, w)
         else
           (case execute (children ! index) agentId w deltaTime of
              None \<Rightarrow> None
            | Some (status, child', w') \<Rightarrow>
                (let children' = children[index := child'] in
                 if status = RUNNING then Some (RUNNING, Sequence children' currentIndex1, w')
                 else if status = FAILURE
                   then Some (FAILURE, Sequence children' (currentIndex1(agentId \<mapsto> 0)), w')
                 else if index + 1 \<ge> length children
                   then Some (SUCCESS, Sequence children' (currentIndex1(agentId \<mapsto> 0)), w')
                 else Some (RUNNING, Sequence children' (currentIndex1(agentId \<mapsto> index + 1)), w'))))"
| "execute (Selector children currentIndex) agentId w deltaTime =
     (let currentIndex1 =
            (if currentIndex agentId = None then currentIndex(agentId \<mapsto> 0) else currentIndex);
          index = (case currentIndex1 agentId of None \<Rightarrow> 0 | Some i \<Rightarrow> i)
      in if index \<ge> length children then Some (FAILURE, Selector children currentIndex1, w)
         else
           (case execute (children ! index) agentId w deltaTime of
              None \<Rightarrow> None
            | Some (status, child', w') \<Rightarrow>
                (let children' = children[index := child'] in
                 if status = RUNNING then Some (RUNNING, Selector children' currentIndex1, w')
                 else if status = SUCCESS
                   then Some (SUCCESS, Selector children' (currentIndex1(agentId \<mapsto> 0)), w')
                 else if index + 1 \<ge> length children
                   then Some (FAILURE, Selector children' (currentIndex1(agentId \<mapsto> 0)), w')
                 else Some (RUNNING, Selector children' (currentIndex1(agentId \<mapsto> index + 1)), w'))))"
| "execute (Inverter child) agentId w deltaTime =
     (case execute child agentId w deltaTime of
        None \<Rightarrow> None
      | Some (status, child', w') \<Rightarrow>
          if status = RUNNING then Some (RUNNING, Inverter child', w')
          else if status = SUCCESS then Some (FAILURE, Inverter child', w')
          else Some (SUCCESS, Inverter child', w'))"
| "execute (Condition condition) agentId w deltaTime =
     Some (if condition w then SUCCESS else FAILURE, Condition condition, w)"
| "execute (Action action onEnter onExit isRunning) agentId w deltaTime =
     (case (if \<not> wasRunning isRunning agentId then callHook onEnter w else Some w) of
        None \<Rightarrow> None
      | Some w1 \<Rightarrow>
          (case action w1 deltaTime of
             None \<Rightarrow> None
           | Some (status, w2) \<Rightarrow>
               if status \<noteq> RUNNING then
                 (case callHook onExit w2 of
                    None \<Rightarrow> None
                  | Some w3 \<Rightarrow>
                      Some (status, Action action onEnter onExit (isRunning(agentId \<mapsto> False)), w3))
               else Some (status, Action action onEnter onExit (isRunning(agentId \<mapsto> True)), w2)))"
| "execute (Parallel children requiredSuccesses statuses) agentId w deltaTime =
     (let statuses1 =
            (if statuses agentId = None
             then statuses(agentId \<mapsto> map (\<lambda>_. RUNNING) children) else statuses);
          agentStatuses = (case statuses1 agentId of None \<Rightarrow> [] | Some s \<Rightarrow> s)
      in case parallelForEach children 0 agentStatuses agentId w deltaTime (0, 0, 0) of
           None \<Rightarrow> None
         | Some (children', agentStatuses', w', (runningCount, successCount, failureCount)) \<Rightarrow>
             if int successCount \<ge> requiredSuccesses
               then Some (SUCCESS, Parallel children' requiredSuccesses (statuses1(agentId := None)), w')
             else if int failureCount > int (length children) - requiredSuccesses
               then Some (FAILURE, Parallel children' requiredSuccesses (statuses1(agentId := None)), w')
             else Some (RUNNING,
                        Parallel children' requiredSuccesses (statuses1(agentId \<mapsto> agentStatuses')), w'))"
| "execute (RepeatUntilFailure child) agentId w deltaTime =
     (case execute child agentId w deltaTime of
        None \<Rightarrow> None
      | Some (status, child', w') \<Rightarrow>
          if status = FAILURE then Some (FAILURE, RepeatUntilFailure child', w')
          else if status = SUCCESS then
            (case reset child' agentId w' of
               None \<Rightarrow> None
             | Some (child'', w'') \<Rightarrow> Some (RUNNING, RepeatUntilFailure child'', w''))
          else Some (RUNNING, RepeatUntilFailure child', w'))"
| "execute (Wait duration timeElapsed) agentId w deltaTime =
     (let timeElapsed1 =
            (if timeElapsed agentId = None then timeElapsed(agentId \<mapsto> 0) else timeElapsed);
          elapsed = (case timeElapsed1 agentId of None \<Rightarrow> 0 | Some e \<Rightarrow> e) + deltaTime;
          timeElapsed2 = timeElapsed1(agentId \<mapsto> elapsed)
      in if elapsed \<ge> duration then Some (SUCCESS, Wait duration (timeElapsed2(agentId := None)), w)
         else Some (RUNNING, Wait duration timeElapsed2, w))"
| "parallelForEach [] index agentStatuses agentId w deltaTime counts =
     Some ([], agentStatuses, w, counts)"
| "parallelForEach (child # rest) index agentStatuses agentId w deltaTime counts =
     (case (if index < length agentStatuses \<and> agentStatuses ! index = RUNNING
            then (case execute child agentId w deltaTime of
                    None \<Rightarrow> None
                  | Some (status, child', w') \<Rightarrow> Some (agentStatuses[index := status], child', w'))
            else Some (agentStatuses, child, w)) of
        None \<Rightarrow> None
      | Some (agentStatuses1, child1, w1) \<Rightarrow>
          (case parallelForEach rest (index + 1) agentStatuses1 agentId w1 deltaTime
                  (countStatus agentStatuses1 index counts) of
             None \<Rightarrow> None
           | Some (rest', agentStatuses2, w2, counts2) \<Rightarrow>
               Some (child1 # rest', agentStatuses2, w2, counts2)))"
  by pat_completeness auto
termination
  by lexicographic_order

text \<open>\<open>BehaviorTree\<close> delegates to its root.\<close>

datatype 'w BehaviorTree = BehaviorTree (root: "'w BehaviorNode")

definition treeExecute ::
    "'w BehaviorTree \<Rightarrow> string \<Rightarrow> 'w \<Rightarrow> real \<Rightarrow> (BehaviorStatus \<times> 'w BehaviorTree \<times> 'w) option" where
  "treeExecute tree agentId w deltaTime =
     (case execute (root tree) agentId w deltaTime of
        None \<Rightarrow> None
      | Some (status, root', w') \<Rightarrow> Some (status, BehaviorTree root', w'))"

definition treeReset :: "'w BehaviorTree \<Rightarrow> string \<Rightarrow> 'w \<Rightarrow> ('w BehaviorTree \<times> 'w) option" where
  "treeReset tree agentId w =
     (case reset (root tree) agentId w of
        None \<Rightarrow> None
      | Some (root', w') \<Rightarrow> Some (BehaviorTree root', w'))"

section \<open>Pathfinding system\<close>

text \<open>
  A JavaScript \<open>Map\<close> that the code iterates over is an association list in insertion
  order: \<open>set\<close> on a key that is present replaces the value in place, \<open>set\<close> on a new
  key appends (\<open>AList.update\<close>), \<open>get\<close> is \<open>map_of\<close>. A \<open>Map\<close> that is only read
  and written by key is a map \<open>'k \<rightharpoonup> 'v\<close>.
\<close>

datatype JsError = TypeError

datatype ConsoleMessage = CannotConnectNodes int int | NoNavigationMesh

definition vecSub :: "vec3 \<Rightarrow> vec3 \<Rightarrow> vec3" where
  "vecSub a b = (case a of (ax, ay, az) \<Rightarrow> case b of (bx, by, bz) \<Rightarrow> (ax - bx, ay - by, az - bz))"

text \<open>\<open>Math.sqrt(dx * dx + dy * dy + dz * dz)\<close>\<close>

definition vecLength :: "vec3 \<Rightarrow> real" where
  "vecLength d = (case d of (dx, dy, dz) \<Rightarrow> sqrt (dx * dx + dy * dy + dz * dz))"

record NavMeshNode =
  node_id :: int
  node_position :: vec3
  connections :: "(int \<times> real) list"

definition newNavMeshNode :: "int \<Rightarrow> vec3 \<Rightarrow> NavMeshNode" where
  "newNavMeshNode ident pos = \<lparr>node_id = ident, node_position = pos, connections = []\<rparr>"

definition addConnection :: "NavMeshNode \<Rightarrow> int \<Rightarrow> real \<Rightarrow> NavMeshNode" where
  "addConnection node nodeId cost = node\<lparr>connections := AList.update nodeId cost (connections node)\<rparr>"

definition removeConnection :: "NavMeshNode \<Rightarrow> int \<Rightarrow> NavMeshNode" where
  "removeConnection node nodeId = node\<lparr>connections := AList.delete nodeId (connections node)\<rparr>"

record NavMesh =
  vertices :: "vec3 list"
  indices :: "nat list list"
  nodes :: "(int \<times> NavMeshNode) list"

definition newNavMesh :: NavMesh where
  "newNavMesh = \<lparr>vertices = [], indices = [], nodes = []\<rparr>"

definition addNode :: "NavMesh \<Rightarrow> int \<Rightarrow> vec3 \<Rightarrow> NavMesh" where
  "addNode mesh ident pos =
     mesh\<lparr>nodes := AList.update ident (newNavMeshNode ident pos) (nodes mesh),
          vertices := vertices mesh @ [pos]\<rparr>"

text \<open>
  \<open>connectNodes\<close> returns the mesh and what it wrote to the console. When \<open>fromId\<close> and
  \<open>toId\<close> are equal, \<open>fromNode\<close> and \<open>toNode\<close> are one object, so the second
  \<open>addConnection\<close> acts on the node the first one has already changed.
\<close>

definition connectNodes :: "NavMesh \<Rightarrow> int \<Rightarrow> int \<Rightarrow> bool \<Rightarrow> NavMesh \<times> ConsoleMessage list" where
  "connectNodes mesh fromId toId bidirectional =
     (case map_of (nodes mesh) fromId of
        None \<Rightarrow> (mesh, [CannotConnectNodes fromId toId])
      | Some fromNode \<Rightarrow>
          (case map_of (nodes mesh) toId of
             None \<Rightarrow> (mesh, [CannotConnectNodes fromId toId])
           | Some toNode \<Rightarrow>
               (let cost = vecLength (vecSub (node_position toNode) (node_position fromNode));
                    fromNode1 = addConnection fromNode toId cost;
                    mesh1 = mesh\<lparr>nodes := AList.update fromId fromNode1 (nodes mesh)\<rparr>
                in if bidirectional
                   then (let toNode1 = (if toId = fromId then fromNode1 else toNode)
                         in (mesh1\<lparr>nodes := AList.update toId (addConnection toNode1 fromId cost)
                                                 (nodes mesh1)\<rparr>, []))
                   else (mesh1, []))))"


definition heuristic :: "vec3 \<Rightarrow> vec3 \<Rightarrow> real" where
  "heuristic a b = vecLength (vecSub b a)"

text \<open>
  \<open>getClosestNode\<close>: the pair \<open>(closestNode, closestDistance)\<close> starts as
  \<open>(null, Infinity)\<close>, which is \<open>None\<close>; every distance is below \<open>Infinity\<close>.
\<close>

definition closestStep :: "vec3 \<Rightarrow> int \<times> NavMeshNode \<Rightarrow> (NavMeshNode \<times> real) option \<Rightarrow>
    (NavMeshNode \<times> real) option" where
  "closestStep pos entry closest =
     (let node = snd entry;
          distance = vecLength (vecSub (node_position node) pos)
      in case closest of
           None \<Rightarrow> Some (node, distance)
         | Some (closestNode, closestDistance) \<Rightarrow>
             if distance < closestDistance then Some (node, distance) else closest)"

definition getClosestNode :: "NavMesh \<Rightarrow> vec3 \<Rightarrow> NavMeshNode option" where
  "getClosestNode mesh pos = map_option fst (fold (closestStep pos) (nodes mesh) None)"

definition getClosestPoint :: "NavMesh \<Rightarrow> vec3 \<Rightarrow> vec3" where
  "getClosestPoint mesh pos =
     (case getClosestNode mesh pos of None \<Rightarrow> (0, 0, 0) | Some node \<Rightarrow> node_position node)"

text \<open>
  \<open>Math.random()\<close> reads the next element of a stream of numbers. \<open>getRandomPoint\<close>
  indexes the key array with \<open>Math.floor(Math.random() * nodeIds.length)\<close>; an index
  outside the array yields \<open>undefined\<close> and the read of \<open>.position\<close> throws.
\<close>

definition getRandomPoint :: "NavMesh \<Rightarrow> real stream \<Rightarrow> (vec3 \<times> real stream) option" where
  "getRandomPoint mesh rnd =
     (let nodeIds = map fst (nodes mesh)
      in if length nodeIds = 0 then Some ((0, 0, 0), rnd)
         else (let i = \<lfloor>shd rnd * real (length nodeIds)\<rfloor>
               in if 0 \<le> i \<and> nat i < length nodeIds
                  then (case map_of (nodes mesh) (nodeIds ! nat i) of
                          None \<Rightarrow> None
                        | Some node \<Rightarrow> Some (node_position node, stl rnd))
                  else None))"

definition raycast :: "NavMesh \<Rightarrow> vec3 \<Rightarrow> vec3 \<Rightarrow> vec3 option" where
  "raycast mesh start end = None"

subsection \<open>A* search\<close>

record SearchState =
  openSet :: "int list"
  cameFrom :: "int \<rightharpoonup> int"
  gScore :: "int \<rightharpoonup> real"
  fScore :: "int \<rightharpoonup> real"

text \<open>\<open>score < lowestFScore\<close>, where a score that is missing is \<open>Infinity\<close>.\<close>

definition lessInf :: "real option \<Rightarrow> real option \<Rightarrow> bool" where
  "lessInf a b =
     (case a of None \<Rightarrow> False | Some x \<Rightarrow> (case b of None \<Rightarrow> True | Some y \<Rightarrow> x < y))"

definition lowestStep :: "(int \<rightharpoonup> real) \<Rightarrow> int \<Rightarrow> int \<times> real option \<Rightarrow> int \<times> real option" where
  "lowestStep fs nodeId best =
     (if lessInf (fs nodeId) (snd best) then (nodeId, fs nodeId) else best)"

text \<open>
  The scan of the open set for the lowest \<open>fScore\<close>: it starts from \<open>openSet[0]\<close>
  and runs over the rest.
\<close>

definition lowestFScore :: "(int \<rightharpoonup> real) \<Rightarrow> int \<Rightarrow> int list \<Rightarrow> int" where
  "lowestFScore fs first rest = fst (fold (lowestStep fs) rest (first, fs first))"

text \<open>
  The body of \<open>currentNode.connections.forEach\<close> for one edge. The tentative score is
  \<open>Infinity\<close> when \<open>current\<close> has no \<open>gScore\<close>, and then it improves on nothing.
\<close>

definition relaxNeighbor :: "NavMesh \<Rightarrow> NavMeshNode \<Rightarrow> int \<Rightarrow> int \<times> real \<Rightarrow> SearchState \<Rightarrow>
    JsError + SearchState" where
  "relaxNeighbor mesh endNode current edge st =
     (let neighborId = fst edge; cost = snd edge
      in case gScore st current of
           None \<Rightarrow> Inr st
         | Some g \<Rightarrow>
             (let tentativeGScore = g + cost
              in if lessInf (Some tentativeGScore) (gScore st neighborId)
                 then (case map_of (nodes mesh) neighborId of
                         None \<Rightarrow> Inl TypeError
                       | Some neighbor \<Rightarrow>
                           Inr (st\<lparr>cameFrom := (cameFrom st)(neighborId \<mapsto> current),
                                   gScore := (gScore st)(neighborId \<mapsto> tentativeGScore),
                                   fScore := (fScore st)(neighborId \<mapsto> tentativeGScore +
                                      heuristic (node_position neighbor) (node_position endNode)),
                                   openSet := (if neighborId \<in> set (openSet st) then openSet st
                                               else openSet st @ [neighborId])\<rparr>))
                 else Inr st))"

fun relaxAll :: "NavMesh \<Rightarrow> NavMeshNode \<Rightarrow> int \<Rightarrow> (int \<times> real) list \<Rightarrow> SearchState \<Rightarrow>
    JsError + SearchState" where
  "relaxAll mesh endNode current [] st = Inr st"
| "relaxAll mesh endNode current (edge # rest) st =
     (case relaxNeighbor mesh endNode current edge st of
        Inl err \<Rightarrow> Inl err
      | Inr st' \<Rightarrow> relaxAll mesh endNode current rest st')"

text \<open>
  The two loops of the search may run forever on some inputs: the outer value \<open>None\<close>
  is "does not return".
\<close>

partial_function (option) reconstructLoop ::
    "NavMesh \<Rightarrow> (int \<rightharpoonup> int) \<Rightarrow> int \<Rightarrow> vec3 list \<Rightarrow> (JsError + vec3 list) option" where
  "reconstructLoop mesh came current path =
     (case came current of
        None \<Rightarrow> Some (Inr path)
      | Some previous \<Rightarrow>
          (case map_of (nodes mesh) previous of
             None \<Rightarrow> Some (Inl TypeError)
           | Some node \<Rightarrow> reconstructLoop mesh came previous (node_position node # path)))"

definition reconstructPath :: "NavMesh \<Rightarrow> (int \<rightharpoonup> int) \<Rightarrow> int \<Rightarrow> (JsError + vec3 list) option" where
  "reconstructPath mesh came current =
     (case map_of (nodes mesh) current of
        None \<Rightarrow> Some (Inl TypeError)
      | Some node \<Rightarrow> reconstructLoop mesh came current [node_position node])"

partial_function (option) searchLoop ::
    "NavMesh \<Rightarrow> NavMeshNode \<Rightarrow> SearchState \<Rightarrow> (JsError + vec3 list) option" where
  "searchLoop mesh endNode st =
     (case openSet st of
        [] \<Rightarrow> Some (Inr [])
      | first # rest \<Rightarrow>
          (let current = lowestFScore (fScore st) first rest
           in if current = node_id endNode then reconstructPath mesh (cameFrom st) current
              else (case map_of (nodes mesh) current of
                      None \<Rightarrow> Some (Inl TypeError)
                    | Some currentNode \<Rightarrow>
                        (case relaxAll mesh endNode current (connections currentNode)
                                (st\<lparr>openSet := remove1 current (openSet st)\<rparr>) of
                           Inl err \<Rightarrow> Some (Inl err)
                         | Inr st' \<Rightarrow> searchLoop mesh endNode st'))))"

definition findPath :: "NavMesh \<Rightarrow> vec3 \<Rightarrow> vec3 \<Rightarrow> (JsError + vec3 list) option" where
  "findPath mesh startPosition endPosition =
     (case getClosestNode mesh startPosition of
        None \<Rightarrow> Some (Inr [])
      | Some startNode \<Rightarrow>
          (case getClosestNode mesh endPosition of
             None \<Rightarrow> Some (Inr [])
           | Some endNode \<Rightarrow>
               searchLoop mesh endNode
                 \<lparr>openSet = [node_id startNode],
                  cameFrom = Map.empty,
                  gScore = [node_id startNode \<mapsto> 0],
                  fScore = [node_id startNode \<mapsto>
                              heuristic (node_position startNode) (node_position endNode)]\<rparr>))"

section \<open>Agent system\<close>

text \<open>
  The transform owner is an external object; the code reads \<open>transform\<close> and
  \<open>rotation\<close> defensively (\<open>transform?.position\<close>, \<open>rotation?.[1] || 0\<close>), so both
  are optional here.
\<close>

record Transform =
  position :: vec3
  rotation :: "vec3 option"
  scale :: vec3

record GameObject =
  name :: string
  transform :: "Transform option"

record AgentConfig =
  speed :: real
  turnSpeed :: real
  acceleration :: real
  stoppingDistance :: real
  obstacleAvoidanceRadius :: real
  maxSlopeAngle :: real
  targetTagToChase :: "string option"
  targetTagToFlee :: "string option"
  patrolPoints :: "vec3 list option"
  detectionRadius :: "real option"
  fieldOfView :: "real option"
  hearingRadius :: "real option"

datatype BlackboardValue = BNumber real | BVector vec3 | BBoolean bool | BString string

text \<open>
  \<open>behaviorTree\<close> is a reference to a tree object that other agents may share: an
  address in the store of trees (see \<open>World\<close> below).
\<close>

record Agent =
  agent_id :: string
  gameObject :: GameObject
  config :: AgentConfig
  behaviorTree :: "nat option"
  path :: "vec3 list"
  currentPathIndex :: nat
  currentTarget :: "vec3 option"
  velocity :: vec3
  blackboard :: "string \<rightharpoonup> BlackboardValue"

definition newAgent :: "string \<Rightarrow> GameObject \<Rightarrow> AgentConfig \<Rightarrow> Agent" where
  "newAgent ident obj cfg =
     \<lparr>agent_id = ident, gameObject = obj, config = cfg, behaviorTree = None, path = [],
      currentPathIndex = 0, currentTarget = None, velocity = (0, 0, 0), blackboard = Map.empty\<rparr>"

definition setBehaviorTree :: "Agent \<Rightarrow> nat \<Rightarrow> Agent" where
  "setBehaviorTree agent tree = agent\<lparr>behaviorTree := Some tree\<rparr>"

definition setPath :: "Agent \<Rightarrow> vec3 list \<Rightarrow> Agent" where
  "setPath agent newPath = agent\<lparr>path := newPath, currentPathIndex := 0\<rparr>"

definition setTarget :: "Agent \<Rightarrow> vec3 option \<Rightarrow> Agent" where
  "setTarget agent target = agent\<lparr>currentTarget := target\<rparr>"

definition setBlackboardValue :: "Agent \<Rightarrow> string \<Rightarrow> BlackboardValue \<Rightarrow> Agent" where
  "setBlackboardValue agent key val = agent\<lparr>blackboard := (blackboard agent)(key \<mapsto> val)\<rparr>"

definition hasBlackboardValue :: "Agent \<Rightarrow> string \<Rightarrow> bool" where
  "hasBlackboardValue agent key = (blackboard agent key \<noteq> None)"

definition clearBlackboardValue :: "Agent \<Rightarrow> string \<Rightarrow> Agent" where
  "clearBlackboardValue agent key = agent\<lparr>blackboard := (blackboard agent)(key := None)\<rparr>"

subsection \<open>Locomotion\<close>

text \<open>\<open>Math.atan2(y, x)\<close> on real numbers (there is no negative zero in the model).\<close>

definition atan2 :: "real \<Rightarrow> real \<Rightarrow> real" where
  "atan2 y x =
     (if x > 0 then arctan (y / x)
      else if x < 0 \<and> y \<ge> 0 then arctan (y / x) + pi
      else if x < 0 then arctan (y / x) - pi
      else if y > 0 then pi / 2
      else if y < 0 then - (pi / 2)
      else 0)"

text \<open>The remainder operator \<open>%\<close>: the quotient is truncated towards zero.\<close>

definition jsRemainder :: "real \<Rightarrow> real \<Rightarrow> real" where
  "jsRemainder x m =
     x - m * of_int (if x / m \<ge> 0 then \<lfloor>x / m\<rfloor> else \<lceil>x / m\<rceil>)"

definition getAngleDifference :: "real \<Rightarrow> real \<Rightarrow> real" where
  "getAngleDifference a b =
     (let diff = jsRemainder (b - a) 360;
          diff1 = (if diff > 180 then diff - 360 else diff);
          diff2 = (if diff1 < - 180 then diff1 + 360 else diff1)
      in diff2)"

text \<open>The rotation update at the end of \<open>moveTowards\<close>, for the new velocity.\<close>

definition faceMovement :: "AgentConfig \<Rightarrow> vec3 \<Rightarrow> real \<Rightarrow> Transform \<Rightarrow> Transform" where
  "faceMovement cfg vel deltaTime tr =
     (case vel of (vx, vy, vz) \<Rightarrow>
        if \<bar>vx\<bar> > 0.001 \<or> \<bar>vz\<bar> > 0.001 then
          (let targetRotationY = atan2 vx vz * (180 / pi);
               currentRotationY = (case rotation tr of None \<Rightarrow> 0 | Some (rx, ry, rz) \<Rightarrow> ry);
               angleDiff = getAngleDifference currentRotationY targetRotationY;
               maxTurn = turnSpeed cfg * deltaTime;
               turnAmount = min \<bar>angleDiff\<bar> maxTurn * sgn angleDiff
           in tr\<lparr>rotation := Some
                  ((case rotation tr of None \<Rightarrow> 0 | Some (rx, ry, rz) \<Rightarrow> rx),
                   currentRotationY + turnAmount,
                   (case rotation tr of None \<Rightarrow> 0 | Some (rx, ry, rz) \<Rightarrow> rz))\<rparr>)
        else tr)"

text \<open>
  \<open>moveTowards\<close> returns the value of the source and the agent after the call. The
  division by \<open>distance\<close> is a division by zero when the agent stands on the target and
  \<open>stoppingDistance\<close> is negative; JavaScript then continues with NaN, the model stops
  with \<open>None\<close>.
\<close>

definition moveTowards :: "Agent \<Rightarrow> vec3 \<Rightarrow> real \<Rightarrow> (bool \<times> Agent) option" where
  "moveTowards agent target deltaTime =
     (case transform (gameObject agent) of
        None \<Rightarrow> Some (False, agent)
      | Some tr \<Rightarrow>
          (case vecSub target (position tr) of (dx, dy, dz) \<Rightarrow>
             (let distance = sqrt (dx * dx + dy * dy + dz * dz)
              in if distance \<le> stoppingDistance (config agent)
                 then Some (True, agent\<lparr>velocity := (0, 0, 0)\<rparr>)
                 else if distance = 0 then None
                 else
                   (case velocity agent of (vx, vy, vz) \<Rightarrow>
                    case position tr of (px, py, pz) \<Rightarrow>
                      (let directionX = dx / distance;
                           directionY = dy / distance;
                           directionZ = dz / distance;
                           desiredX = directionX * speed (config agent);
                           desiredY = directionY * speed (config agent);
                           desiredZ = directionZ * speed (config agent);
                           vx' = vx + (desiredX - vx) * acceleration (config agent) * deltaTime;
                           vy' = vy + (desiredY - vy) * acceleration (config agent) * deltaTime;
                           vz' = vz + (desiredZ - vz) * acceleration (config agent) * deltaTime;
                           tr1 = tr\<lparr>position :=
                                   (px + vx' * deltaTime, py + vy' * deltaTime, pz + vz' * deltaTime)\<rparr>;
                           tr2 = faceMovement (config agent) (vx', vy', vz') deltaTime tr1
                       in Some (False,
                                agent\<lparr>velocity := (vx', vy', vz'),
                                      gameObject := (gameObject agent)\<lparr>transform := Some tr2\<rparr>\<rparr>))))))"

text \<open>
  \<open>followPath\<close>: a cursor beyond the end of the path reads \<open>undefined\<close>, which
  \<open>moveTowards\<close> dereferences (a TypeError, \<open>None\<close>) unless the transform is missing
  and it returns false before looking at the target.
\<close>

definition followPath :: "Agent \<Rightarrow> real \<Rightarrow> (bool \<times> Agent) option" where
  "followPath agent deltaTime =
     (if length (path agent) = 0 then Some (True, agent)
      else
        (case (if currentPathIndex agent < length (path agent)
               then moveTowards agent (path agent ! currentPathIndex agent) deltaTime
               else (if transform (gameObject agent) = None then Some (False, agent) else None)) of
           None \<Rightarrow> None
         | Some (reachedWaypoint, agent1) \<Rightarrow>
             if reachedWaypoint then
               (let agent2 = agent1\<lparr>currentPathIndex := currentPathIndex agent1 + 1\<rparr>
                in if currentPathIndex agent2 \<ge> length (path agent2)
                   then Some (True, agent2\<lparr>path := [], currentPathIndex := 0\<rparr>)
                   else Some (False, agent2))
             else Some (False, agent1)))"

section \<open>AI system\<close>

text \<open>
  \<open>NavigationMesh\<close> is an interface: an object with methods. \<open>AISystem.findPath\<close>
  also calls \<open>findPath\<close> on it, so that method is part of the record. A method that
  does not return normally yields \<open>None\<close>. \<open>navMeshObject\<close> is the class \<open>NavMesh\<close>
  seen through the interface.
\<close>

record NavigationMesh =
  mesh_vertices :: "vec3 list"
  mesh_indices :: "nat list list"
  mesh_getClosestPoint :: "vec3 \<Rightarrow> vec3"
  mesh_getRandomPoint :: "real stream \<Rightarrow> (vec3 \<times> real stream) option"
  mesh_raycast :: "vec3 \<Rightarrow> vec3 \<Rightarrow> vec3 option"
  mesh_findPath :: "vec3 \<Rightarrow> vec3 \<Rightarrow> vec3 list option"

definition navMeshObject :: "NavMesh \<Rightarrow> NavigationMesh" where
  "navMeshObject mesh =
     \<lparr>mesh_vertices = vertices mesh,
      mesh_indices = indices mesh,
      mesh_getClosestPoint = getClosestPoint mesh,
      mesh_getRandomPoint = getRandomPoint mesh,
      mesh_raycast = raycast mesh,
      mesh_findPath = (\<lambda>startPosition endPosition.
         case findPath mesh startPosition endPosition of
           Some (Inr p) \<Rightarrow> Some p
         | _ \<Rightarrow> None)\<rparr>"

text \<open>
  The world of the closures that the behavior factories build: the agent passed to
  \<open>execute\<close>, the navigation mesh of the \<open>AISystem\<close> singleton and the source of
  \<open>Math.random()\<close>.
\<close>

record Ctx =
  self :: Agent
  navigationMesh :: "NavigationMesh option"
  rng :: "real stream"

definition numberAt :: "Agent \<Rightarrow> string \<Rightarrow> real option" where
  "numberAt agent key = (case blackboard agent key of Some (BNumber x) \<Rightarrow> Some x | _ \<Rightarrow> None)"

text \<open>\<open>points[index]\<close>: \<open>undefined\<close> unless the index is a natural number below the length.\<close>

definition pointAt :: "vec3 list \<Rightarrow> real \<Rightarrow> vec3 option" where
  "pointAt points index =
     (if 0 \<le> index \<and> index = of_int \<lfloor>index\<rfloor> \<and> nat \<lfloor>index\<rfloor> < length points
      then Some (points ! nat \<lfloor>index\<rfloor>) else None)"

subsection \<open>Behavior factories\<close>

text \<open>
  In the closures below a blackboard entry that is read as a number and is not one, and
  an \<open>undefined\<close> waypoint put into the path, end the call with \<open>None\<close>: the source
  goes on with coerced values or throws at the next \<open>moveTowards\<close>.
\<close>

definition patrolAction :: "vec3 list \<Rightarrow> bool \<Rightarrow> Ctx \<Rightarrow> real \<Rightarrow> (BehaviorStatus \<times> Ctx) option" where
  "patrolAction points loop c deltaTime =
     (let agent1 = (if \<not> hasBlackboardValue (self c) ''patrolIndex''
                    then setBlackboardValue (self c) ''patrolIndex'' (BNumber 0) else self c)
      in case numberAt agent1 ''patrolIndex'' of
           None \<Rightarrow> None
         | Some index \<Rightarrow>
             if index \<ge> real (length points) \<and> \<not> loop then Some (SUCCESS, c\<lparr>self := agent1\<rparr>)
             else
               (case (if index \<ge> real (length points)
                      then map_option
                             (\<lambda>p. setPath (setBlackboardValue agent1 ''patrolIndex'' (BNumber 0)) [p])
                             (pointAt points 0)
                      else Some agent1) of
                  None \<Rightarrow> None
                | Some agent2 \<Rightarrow>
                    (case (if length (path agent2) = 0
                           then map_option (\<lambda>p. setPath agent2 [p]) (pointAt points index)
                           else Some agent2) of
                       None \<Rightarrow> None
                     | Some agent3 \<Rightarrow>
                         (case followPath agent3 deltaTime of
                            None \<Rightarrow> None
                          | Some (completed, agent4) \<Rightarrow>
                              if completed then
                                (let agent5 = setBlackboardValue agent4 ''patrolIndex'' (BNumber (index + 1))
                                 in if index + 1 < real (length points)
                                    then map_option (\<lambda>p. (RUNNING, c\<lparr>self := setPath agent5 [p]\<rparr>))
                                           (pointAt points (index + 1))
                                    else if loop
                                    then map_option
                                           (\<lambda>p. (RUNNING,
                                                 c\<lparr>self := setPath (setBlackboardValue agent5 ''patrolIndex''
                                                                      (BNumber 0)) [p]\<rparr>))
                                           (pointAt points 0)
                                    else Some (SUCCESS, c\<lparr>self := agent5\<rparr>))
                              else Some (RUNNING, c\<lparr>self := agent4\<rparr>)))))"

definition patrolOnEnter :: "vec3 list \<Rightarrow> Ctx \<Rightarrow> Ctx option" where
  "patrolOnEnter points c =
     (let agent1 = setBlackboardValue (self c) ''patrolIndex'' (BNumber 0)
      in Some (c\<lparr>self := (if length points > 0 then setPath agent1 [points ! 0] else agent1)\<rparr>))"

definition patrolOnExit :: "Ctx \<Rightarrow> Ctx option" where
  "patrolOnExit c = Some (c\<lparr>self := setPath (self c) []\<rparr>)"

definition createPatrolBehavior :: "vec3 list \<Rightarrow> bool \<Rightarrow> Ctx BehaviorNode" where
  "createPatrolBehavior points loop =
     newAction (patrolAction points loop) (Some (patrolOnEnter points)) (Some patrolOnExit)"

text \<open>
  The timed re-planning of the chase: the left summand is the early
  \<open>return BehaviorStatus.FAILURE\<close>.
\<close>

definition chaseReplan :: "(Agent \<Rightarrow> vec3 option) \<Rightarrow> Ctx \<Rightarrow> Agent \<Rightarrow> (Agent + Agent) option" where
  "chaseReplan targetSelector c agent2 =
     (let agent3 = setBlackboardValue agent2 ''chaseTimer'' (BNumber 0)
      in case targetSelector agent3 of
           None \<Rightarrow> Some (Inl agent3)
         | Some targetPosition \<Rightarrow>
             (let agent4 = setTarget agent3 (Some targetPosition)
              in case navigationMesh c of
                   None \<Rightarrow> Some (Inr (setPath agent4 [targetPosition]))
                 | Some mesh \<Rightarrow>
                     (case transform (gameObject agent4) of
                        None \<Rightarrow> Some (Inr (setPath agent4 [targetPosition]))
                      | Some tr \<Rightarrow>
                          (case mesh_findPath mesh (position tr) targetPosition of
                             None \<Rightarrow> None
                           | Some p \<Rightarrow>
                               Some (Inr (if length p > 0 then setPath agent4 p
                                          else setPath agent4 [targetPosition]))))))"

definition chaseAction :: "(Agent \<Rightarrow> vec3 option) \<Rightarrow> real \<Rightarrow> Ctx \<Rightarrow> real \<Rightarrow>
    (BehaviorStatus \<times> Ctx) option" where
  "chaseAction targetSelector updateRate c deltaTime =
     (let agent1 = (if \<not> hasBlackboardValue (self c) ''chaseTimer''
                    then setBlackboardValue (self c) ''chaseTimer'' (BNumber 0) else self c)
      in case numberAt agent1 ''chaseTimer'' of
           None \<Rightarrow> None
         | Some timer0 \<Rightarrow>
             (let timer = timer0 + deltaTime;
                  agent2 = setBlackboardValue agent1 ''chaseTimer'' (BNumber timer)
              in case (if timer \<ge> updateRate then chaseReplan targetSelector c agent2
                       else Some (Inr agent2)) of
                   None \<Rightarrow> None
                 | Some (Inl agentF) \<Rightarrow> Some (FAILURE, c\<lparr>self := agentF\<rparr>)
                 | Some (Inr agent5) \<Rightarrow>
                     (case followPath agent5 deltaTime of
                        None \<Rightarrow> None
                      | Some (pathCompleted, agent6) \<Rightarrow>
                          Some (if currentTarget agent6 \<noteq> None then RUNNING else SUCCESS,
                                c\<lparr>self := agent6\<rparr>))))"

definition chaseOnEnter :: "Ctx \<Rightarrow> Ctx option" where
  "chaseOnEnter c = Some (c\<lparr>self := setBlackboardValue (self c) ''chaseTimer'' (BNumber 0)\<rparr>)"

definition chaseOnExit :: "Ctx \<Rightarrow> Ctx option" where
  "chaseOnExit c =
     Some (c\<lparr>self := clearBlackboardValue (setTarget (setPath (self c) []) None) ''chaseTimer''\<rparr>)"

definition createChaseBehavior :: "(Agent \<Rightarrow> vec3 option) \<Rightarrow> real \<Rightarrow> Ctx BehaviorNode" where
  "createChaseBehavior targetSelector updateRate =
     newAction (chaseAction targetSelector updateRate) (Some chaseOnEnter) (Some chaseOnExit)"

definition wanderAction :: "real \<Rightarrow> real \<Rightarrow> Ctx \<Rightarrow> real \<Rightarrow> (BehaviorStatus \<times> Ctx) option" where
  "wanderAction radius minDistance c deltaTime =
     (case (if length (path (self c)) = 0 then Some (True, self c)
            else followPath (self c) deltaTime) of
        None \<Rightarrow> None
      | Some (pick, agent1) \<Rightarrow>
          if pick then
            (let currentPosition =
                   (case transform (gameObject agent1) of None \<Rightarrow> (0, 0, 0) | Some tr \<Rightarrow> position tr)
             in case navigationMesh c of
                  Some mesh \<Rightarrow>
                    (case mesh_getRandomPoint mesh (rng c) of
                       None \<Rightarrow> None
                     | Some (wanderTarget, rnd') \<Rightarrow>
                         Some (RUNNING, c\<lparr>self := setPath agent1 [wanderTarget], rng := rnd'\<rparr>))
                | None \<Rightarrow>
                    (let angle = shd (rng c) * pi * 2;
                         distance = minDistance + shd (stl (rng c)) * (radius - minDistance);
                         wanderTarget =
                           (case currentPosition of (x, y, z) \<Rightarrow>
                              (x + cos angle * distance, y, z + sin angle * distance))
                     in Some (RUNNING,
                              c\<lparr>self := setPath agent1 [wanderTarget], rng := stl (stl (rng c))\<rparr>)))
          else Some (RUNNING, c\<lparr>self := agent1\<rparr>))"

definition createWanderBehavior :: "real \<Rightarrow> real \<Rightarrow> Ctx BehaviorNode" where
  "createWanderBehavior radius minDistance = newAction (wanderAction radius minDistance) None None"

definition fleeAction :: "(Agent \<Rightarrow> vec3 option) \<Rightarrow> real \<Rightarrow> Ctx \<Rightarrow> real \<Rightarrow>
    (BehaviorStatus \<times> Ctx) option" where
  "fleeAction targetSelector fleeDistance c deltaTime =
     (case targetSelector (self c) of
        None \<Rightarrow> Some (SUCCESS, c)
      | Some targetPosition \<Rightarrow>
          (case transform (gameObject (self c)) of
             None \<Rightarrow> Some (FAILURE, c)
           | Some tr \<Rightarrow>
               (case vecSub (position tr) targetPosition of (dx, dy, dz) \<Rightarrow>
                case position tr of (cx, cy, cz) \<Rightarrow>
                  (let distance = sqrt (dx * dx + dy * dy + dz * dz)
                   in if distance \<ge> fleeDistance then Some (SUCCESS, c)
                      else if distance = 0 then None
                      else
                        (let dirX = dx / distance;
                             dirY = dy / distance;
                             dirZ = dz / distance;
                             fleeTarget = (cx + dirX * fleeDistance, cy + dirY * fleeDistance,
                                           cz + dirZ * fleeDistance);
                             agent1 = (case navigationMesh c of
                                         Some mesh \<Rightarrow> setPath (self c) [mesh_getClosestPoint mesh fleeTarget]
                                       | None \<Rightarrow> setPath (self c) [fleeTarget])
                         in case followPath agent1 deltaTime of
                              None \<Rightarrow> None
                            | Some (completed, agent2) \<Rightarrow> Some (RUNNING, c\<lparr>self := agent2\<rparr>))))))"

definition createFleeFromBehavior :: "(Agent \<Rightarrow> vec3 option) \<Rightarrow> real \<Rightarrow> Ctx BehaviorNode" where
  "createFleeFromBehavior targetSelector fleeDistance =
     newAction (fleeAction targetSelector fleeDistance) None None"

subsection \<open>The orchestrator\<close>

text \<open>
  The registry is a JavaScript \<^verbatim>\<open>Map\<close>, iterated by \<^verbatim>\<open>update\<close> and
  \<^verbatim>\<open>getAgentsInRadius\<close> in insertion order: an association list. The two progress lines
  that \<^verbatim>\<open>initialize\<close> writes to the console have no effect on the state and are left out.
\<close>

record AISystem =
  agents :: "(string \<times> Agent) list"
  systemNavigationMesh :: "NavigationMesh option"
  isInitialized :: bool

definition newAISystem :: AISystem where
  "newAISystem = \<lparr>agents = [], systemNavigationMesh = None, isInitialized = False\<rparr>"

definition initialize :: "AISystem \<Rightarrow> NavigationMesh option \<Rightarrow> AISystem" where
  "initialize sys mesh =
     (if isInitialized sys then sys else sys\<lparr>systemNavigationMesh := mesh, isInitialized := True\<rparr>)"

definition createAgent :: "AISystem \<Rightarrow> string \<Rightarrow> GameObject \<Rightarrow> AgentConfig \<Rightarrow> Agent \<times> AISystem" where
  "createAgent sys ident obj cfg =
     (let agent = newAgent ident obj cfg
      in (agent, sys\<lparr>agents := AList.update ident agent (agents sys)\<rparr>))"

definition removeAgent :: "AISystem \<Rightarrow> string \<Rightarrow> AISystem" where
  "removeAgent sys ident = sys\<lparr>agents := AList.delete ident (agents sys)\<rparr>"

definition getAgent :: "AISystem \<Rightarrow> string \<Rightarrow> Agent option" where
  "getAgent sys ident = map_of (agents sys) ident"

definition setNavigationMesh :: "AISystem \<Rightarrow> NavigationMesh \<Rightarrow> AISystem" where
  "setNavigationMesh sys mesh = sys\<lparr>systemNavigationMesh := Some mesh\<rparr>"

definition systemFindPath :: "AISystem \<Rightarrow> vec3 \<Rightarrow> vec3 \<Rightarrow> (vec3 list \<times> ConsoleMessage list) option" where
  "systemFindPath sys startPosition endPosition =
     (case systemNavigationMesh sys of
        None \<Rightarrow> Some ([], [NoNavigationMesh])
      | Some mesh \<Rightarrow> map_option (\<lambda>p. (p, [])) (mesh_findPath mesh startPosition endPosition))"

definition getAgentsInRadius :: "AISystem \<Rightarrow> vec3 \<Rightarrow> real \<Rightarrow> Agent list" where
  "getAgentsInRadius sys pos radius =
     filter (\<lambda>agent.
        case transform (gameObject agent) of
          None \<Rightarrow> False
        | Some tr \<Rightarrow>
            (case vecSub (position tr) pos of (dx, dy, dz) \<Rightarrow>
               dx * dx + dy * dy + dz * dz \<le> radius * radius))
       (map snd (agents sys))"

text \<open>
  The objects that the orchestrator does not own: the behavior trees, which agents
  reference by address and may share, and the random source. \<open>Agent.update\<close> runs the
  agent's tree on the agent; \<open>AISystem.update\<close> does so for every agent in the order of
  the registry.
\<close>

record World =
  aiSystem :: AISystem
  trees :: "nat \<rightharpoonup> Ctx BehaviorTree"
  randomSource :: "real stream"

definition agentUpdate :: "World \<Rightarrow> string \<Rightarrow> real \<Rightarrow> World option" where
  "agentUpdate world ident deltaTime =
     (case map_of (agents (aiSystem world)) ident of
        None \<Rightarrow> Some world
      | Some agent \<Rightarrow>
          (case behaviorTree agent of
             None \<Rightarrow> Some world
           | Some address \<Rightarrow>
               (case trees world address of
                  None \<Rightarrow> None
                | Some tree \<Rightarrow>
                    (case treeExecute tree (agent_id agent)
                            \<lparr>self = agent,
                             navigationMesh = systemNavigationMesh (aiSystem world),
                             rng = randomSource world\<rparr> deltaTime of
                       None \<Rightarrow> None
                     | Some (status, tree', c') \<Rightarrow>
                         Some (world\<lparr>aiSystem := (aiSystem world)
                                       \<lparr>agents := AList.update ident (self c') (agents (aiSystem world)),
                                        systemNavigationMesh := navigationMesh c'\<rparr>,
                                     trees := (trees world)(address \<mapsto> tree'),
                                     randomSource := rng c'\<rparr>)))))"

fun updateAgents :: "string list \<Rightarrow> World \<Rightarrow> real \<Rightarrow> World option" where
  "updateAgents [] world deltaTime = Some world"
| "updateAgents (ident # rest) world deltaTime =
     (case agentUpdate world ident deltaTime of
        None \<Rightarrow> None
      | Some world' \<Rightarrow> updateAgents rest world' deltaTime)"

definition systemUpdate :: "World \<Rightarrow> real \<Rightarrow> World option" where
  "systemUpdate world deltaTime =
     (if \<not> isInitialized (aiSystem world) then Some world
      else updateAgents (map fst (agents (aiSystem world))) world deltaTime)"

definition worldRemoveAgent :: "World \<Rightarrow> string \<Rightarrow> World" where
  "worldRemoveAgent world ident = world\<lparr>aiSystem := removeAgent (aiSystem world) ident\<rparr>"

section \<open>Observations used in the statements\<close>

text \<open>The child index of an agent: an agent without an entry is at index 0.\<close>

definition agentIndex :: "(string \<rightharpoonup> nat) \<Rightarrow> string \<Rightarrow> nat" where
  "agentIndex currentIndex agentId = (case currentIndex agentId of None \<Rightarrow> 0 | Some i \<Rightarrow> i)"

text \<open>
  \<open>fresh\<close> is the tree as it was constructed (every per-agent map empty); \<open>view a\<close> is
  the tree with only the entries of agent \<open>a\<close>; \<open>hasNodeState node a\<close> holds when some
  node of the tree has an entry for \<open>a\<close>.
\<close>

fun fresh :: "'w BehaviorNode \<Rightarrow> 'w BehaviorNode" where
  "fresh (Sequence children currentIndex) = Sequence (map fresh children) Map.empty"
| "fresh (Selector children currentIndex) = Selector (map fresh children) Map.empty"
| "fresh (Inverter child) = Inverter (fresh child)"
| "fresh (Condition condition) = Condition condition"
| "fresh (Action action onEnter onExit isRunning) = Action action onEnter onExit Map.empty"
| "fresh (Parallel children requiredSuccesses statuses) =
     Parallel (map fresh children) requiredSuccesses Map.empty"
| "fresh (RepeatUntilFailure child) = RepeatUntilFailure (fresh child)"
| "fresh (Wait duration timeElapsed) = Wait duration Map.empty"

definition only :: "string \<Rightarrow> (string \<rightharpoonup> 'v) \<Rightarrow> (string \<rightharpoonup> 'v)" where
  "only a m = (\<lambda>k. if k = a then m k else None)"

fun view :: "string \<Rightarrow> 'w BehaviorNode \<Rightarrow> 'w BehaviorNode" where
  "view a (Sequence children currentIndex) = Sequence (map (view a) children) (only a currentIndex)"
| "view a (Selector children currentIndex) = Selector (map (view a) children) (only a currentIndex)"
| "view a (Inverter child) = Inverter (view a child)"
| "view a (Condition condition) = Condition condition"
| "view a (Action action onEnter onExit isRunning) = Action action onEnter onExit (only a isRunning)"
| "view a (Parallel children requiredSuccesses statuses) =
     Parallel (map (view a) children) requiredSuccesses (only a statuses)"
| "view a (RepeatUntilFailure child) = RepeatUntilFailure (view a child)"
| "view a (Wait duration timeElapsed) = Wait duration (only a timeElapsed)"

fun hasNodeState :: "'w BehaviorNode \<Rightarrow> string \<Rightarrow> bool" where
  "hasNodeState (Sequence children currentIndex) a =
     (currentIndex a \<noteq> None \<or> list_ex (\<lambda>child. hasNodeState child a) children)"
| "hasNodeState (Selector children currentIndex) a =
     (currentIndex a \<noteq> None \<or> list_ex (\<lambda>child. hasNodeState child a) children)"
| "hasNodeState (Inverter child) a = hasNodeState child a"
| "hasNodeState (Condition condition) a = False"
| "hasNodeState (Action action onEnter onExit isRunning) a = (isRunning a \<noteq> None)"
| "hasNodeState (Parallel children requiredSuccesses statuses) a =
     (statuses a \<noteq> None \<or> list_ex (\<lambda>child. hasNodeState child a) children)"
| "hasNodeState (RepeatUntilFailure child) a = hasNodeState child a"
| "hasNodeState (Wait duration timeElapsed) a = (timeElapsed a \<noteq> None)"

text \<open>Two outcomes of \<open>execute\<close> that agent \<open>a\<close> cannot tell apart.\<close>

definition sameOutcome :: "string \<Rightarrow> (BehaviorStatus \<times> 'w BehaviorNode \<times> 'w) option \<Rightarrow>
    (BehaviorStatus \<times> 'w BehaviorNode \<times> 'w) option \<Rightarrow> bool" where
  "sameOutcome a r1 r2 =
     (case r1 of
        None \<Rightarrow> r2 = None
      | Some (status1, node1, w1) \<Rightarrow>
          (case r2 of
             None \<Rightarrow> False
           | Some (status2, node2, w2) \<Rightarrow>
               status1 = status2 \<and> w1 = w2 \<and> view a node1 = view a node2))"


text \<open>Whether the tree at an address still holds per-agent state for an id.\<close>

definition treeHasState :: "World \<Rightarrow> nat \<Rightarrow> string \<Rightarrow> bool" where
  "treeHasState world address ident =
     (case trees world address of None \<Rightarrow> False | Some tree \<Rightarrow> hasNodeState (root tree) ident)"

text \<open>One tick of a node for an agent, followed by a reset for that agent.\<close>

definition executeThenReset :: "'w BehaviorNode \<Rightarrow> string \<Rightarrow> 'w \<Rightarrow> real \<Rightarrow>
    (BehaviorStatus \<times> 'w BehaviorNode \<times> 'w) option" where
  "executeThenReset node agentId w deltaTime =
     (case execute node agentId w deltaTime of
        None \<Rightarrow> None
      | Some (status, node', w') \<Rightarrow>
          (case reset node' agentId w' of
             None \<Rightarrow> None
           | Some (node'', w'') \<Rightarrow> Some (status, node'', w'')))"


definition forEachSame :: "string \<Rightarrow>
    ('w BehaviorNode list \<times> BehaviorStatus list \<times> 'w \<times> (nat \<times> nat \<times> nat)) option \<Rightarrow>
    ('w BehaviorNode list \<times> BehaviorStatus list \<times> 'w \<times> (nat \<times> nat \<times> nat)) option \<Rightarrow> bool" where
  "forEachSame a r1 r2 =
     (case r1 of
        None \<Rightarrow> r2 = None
      | Some (children1, statuses1, w1, counts1) \<Rightarrow>
          (case r2 of
             None \<Rightarrow> False
           | Some (children2, statuses2, w2, counts2) \<Rightarrow>
               statuses1 = statuses2 \<and> w1 = w2 \<and> counts1 = counts2
               \<and> map (view a) children1 = map (view a) children2))"

section \<open>Example values\<close>

definition exampleConfig :: AgentConfig where
  "exampleConfig =
     \<lparr>speed = 1, turnSpeed = 90, acceleration = 1, stoppingDistance = 1 / 2,
      obstacleAvoidanceRadius = 1, maxSlopeAngle = 45, targetTagToChase = None,
      targetTagToFlee = None, patrolPoints = None, detectionRadius = None, fieldOfView = None,
      hearingRadius = None\<rparr>"

definition exampleTransform :: Transform where
  "exampleTransform = \<lparr>position = (0, 0, 0), rotation = Some (0, 0, 0), scale = (1, 1, 1)\<rparr>"

definition exampleObject :: GameObject where
  "exampleObject = \<lparr>name = ''npc'', transform = Some exampleTransform\<rparr>"

definition exampleAgent :: Agent where
  "exampleAgent = newAgent ''a'' exampleObject exampleConfig"

text \<open>
  A world with one agent \<open>''a''\<close> whose tree, at address 0, is a single \<open>Wait(1)\<close>, before
  and after one \<open>update(0.4)\<close>.
\<close>

definition exampleWorld :: World where
  "exampleWorld =
     \<lparr>aiSystem = \<lparr>agents = [(''a'', setBehaviorTree exampleAgent 0)],
                  systemNavigationMesh = None, isInitialized = True\<rparr>,
      trees = [0 \<mapsto> BehaviorTree (newWait 1)],
      randomSource = sconst 0\<rparr>"

definition exampleWorldTicked :: World where
  "exampleWorldTicked =
     \<lparr>aiSystem = \<lparr>agents = [(''a'', setBehaviorTree exampleAgent 0)],
                  systemNavigationMesh = None, isInitialized = True\<rparr>,
      trees = [0 \<mapsto> BehaviorTree (Wait 1 [''a'' \<mapsto> 2 / 5])],
      randomSource = sconst 0\<rparr>"

text \<open>A threat three units behind the example agent, and the agent's context.\<close>

definition exampleThreat :: "Agent \<Rightarrow> vec3 option" where
  "exampleThreat agent = Some (- 3, 0, 0)"

definition exampleCtx :: Ctx where
  "exampleCtx = \<lparr>self = exampleAgent, navigationMesh = None, rng = sconst 0\<rparr>"

text \<open>
  A tree shared by the agents \<open>''a''\<close> and \<open>''b''\<close>, both in the middle of its first
  child, and the same tree after \<open>reset\<close> for \<open>''a''\<close>. Its closures need no world.
\<close>

definition exampleTree :: "unit BehaviorNode" where
  "exampleTree =
     Sequence [Wait 1 [''b'' \<mapsto> 1 / 4, ''a'' \<mapsto> 1 / 2], Wait 1 Map.empty] [''b'' \<mapsto> 0, ''a'' \<mapsto> 0]"

definition exampleTreeReset :: "unit BehaviorNode" where
  "exampleTreeReset = Sequence [Wait 1 [''b'' \<mapsto> 1 / 4], Wait 1 Map.empty] [''b'' \<mapsto> 0]"



section \<open>Walks in the navigation graph\<close>









text \<open>
  The predecessor links of the search: \<open>chain came s p n\<close> holds when \<open>p\<close> runs from
  \<open>s\<close> to \<open>n\<close> and every node of \<open>p\<close> after the first has its predecessor in \<open>p\<close> as
  its \<open>cameFrom\<close> entry.
\<close>

inductive chain :: "(int \<rightharpoonup> int) \<Rightarrow> int \<Rightarrow> int list \<Rightarrow> int \<Rightarrow> bool"
  for came :: "int \<rightharpoonup> int" and s :: int
where
  chain_start: "chain came s [s] s"
| chain_step: "chain came s p m \<Longrightarrow> came n = Some m \<Longrightarrow> chain came s (p @ [n]) n"






section \<open>Auxiliary facts\<close>


lemma exampleAgent_simps:
  "transform (gameObject exampleAgent) = Some exampleTransform"
  "position exampleTransform = (0, 0, 0)"
  "velocity exampleAgent = (0, 0, 0)"
  "speed (config exampleAgent) = 1"
  "acceleration (config exampleAgent) = 1"
  "stoppingDistance (config exampleAgent) = 1 / 2"
  "path exampleAgent = []"
  "currentPathIndex exampleAgent = 0"
  by (simp_all add: exampleAgent_def newAgent_def exampleObject_def exampleTransform_def
      exampleConfig_def)

lemma moveTowards_keeps_path:
  assumes "moveTowards agent target deltaTime = Some (reached, agent')"
  shows "path agent' = path agent \<and> currentPathIndex agent' = currentPathIndex agent"
  using assms
  by (auto simp: moveTowards_def Let_def split: option.splits prod.splits if_splits)

lemma sqrt_9: "sqrt 9 = 3"
  using real_sqrt_abs2 [of 3] by simp

lemma sqrt_400: "sqrt 400 = 20"
  using real_sqrt_abs2 [of 20] by simp

lemma action_exit:
  assumes "execute (Action action onEnter (Some onExit) isRunning) agentId c deltaTime
             = Some (status, node', c')"
    and "status \<noteq> RUNNING"
  shows "\<exists>c2. onExit c2 = Some c'"
  using assms
  by (auto simp: callHook_def split: option.splits if_splits)

lemma action_reset_running:
  assumes "reset (Action action onEnter (Some onExit) isRunning) agentId c = Some (node', c')"
    and "wasRunning isRunning agentId"
  shows "onExit c = Some c'"
  using assms
  by (auto simp: callHook_def split: option.splits if_splits)

lemma chaseOnExit_clears:
  assumes "chaseOnExit c = Some c'"
  shows "path (self c') = [] \<and> currentTarget (self c') = None
         \<and> blackboard (self c') ''chaseTimer'' = None"
  using assms
  by (auto simp: chaseOnExit_def setPath_def setTarget_def clearBlackboardValue_def)

lemma patrolOnExit_clears:
  assumes "patrolOnExit c = Some c'"
  shows "path (self c') = []"
  using assms by (auto simp: patrolOnExit_def setPath_def)

subsection \<open>The loop of Parallel\<close>












subsection \<open>What reset and execute do to the view of an agent\<close>


lemma only_simps [simp]:
  "only a m a = m a"
  "b \<noteq> a \<Longrightarrow> only a m b = None"
  "only a (only a m) = only a m"
  "only a (m(a := None)) = Map.empty"
  "only a Map.empty = Map.empty"
  "b \<noteq> a \<Longrightarrow> only b (m(a := v)) = only b m"
  "only a ((only a m)(a := v)) = only a (m(a := v))"
  by (auto simp: only_def fun_eq_iff)

lemma view_view [simp]: "view a (view a t) = view a t"
  by (induction t) (simp_all cong: map_cong)

lemma fresh_view [simp]: "fresh (view a t) = fresh t"
  by (induction t) (simp_all cong: map_cong)

lemma view_fresh [simp]: "view a (fresh t) = fresh t"
  by (induction t) (simp_all cong: map_cong)

lemma hasNodeState_fresh [simp]: "\<not> hasNodeState (fresh t) a"
  by (induction t) (simp_all add: list_ex_iff)

lemma hasNodeState_view: "hasNodeState (view a t) a = hasNodeState t a"
  by (induction t) (simp_all add: list_ex_iff)

lemma wasRunning_only [simp]: "wasRunning (only a m) a = wasRunning m a"
  by (simp add: wasRunning_def)

lemma snd_case_option:
  "map_option snd (case x of None \<Rightarrow> None | Some (c, w) \<Rightarrow> Some (f c, w)) = map_option snd x"
  by (auto split: option.splits)

lemma resetChildren_world:
  assumes "\<And>c w. c \<in> set children \<Longrightarrow>
             map_option snd (reset c a w) = map_option snd (reset (view a c) a w)"
  shows "map_option snd (resetChildren children a w)
         = map_option snd (resetChildren (map (view a) children) a w)"
  using assms
proof (induction children arbitrary: w)
  case Nil
  then show ?case by simp
next
  case (Cons c rest)
  have h: "map_option snd (reset c a w) = map_option snd (reset (view a c) a w)"
    by (rule Cons.prems) simp
  have r: "map_option snd (resetChildren rest a w1)
           = map_option snd (resetChildren (map (view a) rest) a w1)" for w1
    by (rule Cons.IH) (simp add: Cons.prems)
  show ?case
  proof (cases "reset c a w")
    case None
    with h show ?thesis by (auto split: option.splits)
  next
    case (Some p)
    obtain c1 w1 where p: "p = (c1, w1)" by (cases p)
    from h Some p obtain c2 where v: "reset (view a c) a w = Some (c2, w1)"
      by (cases "reset (view a c) a w") auto
    from r [of w1] Some p v show ?thesis
      by (cases "resetChildren rest a w1"; cases "resetChildren (map (view a) rest) a w1") auto
  qed
qed

lemma reset_world:
  "map_option snd (reset t a w) = map_option snd (reset (view a t) a w)"
proof (induction t arbitrary: w)
  case (Sequence children currentIndex)
  from resetChildren_world [of children a w] Sequence show ?case
    by (simp add: snd_case_option)
next
  case (Selector children currentIndex)
  from resetChildren_world [of children a w] Selector show ?case
    by (simp add: snd_case_option)
next
  case (Inverter t)
  then show ?case by (simp add: snd_case_option)
next
  case (Condition c)
  then show ?case by simp
next
  case (Action action onEnter onExit isRunning)
  then show ?case by (auto split: option.splits)
next
  case (Parallel children requiredSuccesses statuses)
  from resetChildren_world [of children a w] Parallel show ?case
    by (simp add: snd_case_option)
next
  case (RepeatUntilFailure t)
  then show ?case by (simp add: snd_case_option)
next
  case (Wait duration timeElapsed)
  then show ?case by simp
qed

lemma resetChildren_fresh:
  assumes "\<And>c w t' w'. c \<in> set children \<Longrightarrow> reset c a w = Some (t', w') \<Longrightarrow> view a t' = fresh c"
    and "resetChildren children a w = Some (children', w')"
  shows "map (view a) children' = map fresh children"
  using assms
proof (induction children arbitrary: w children')
  case Nil
  then show ?case by simp
next
  case (Cons c rest)
  from Cons.prems(2) obtain c1 w1 rest1 where
    a: "reset c a w = Some (c1, w1)" and b: "resetChildren rest a w1 = Some (rest1, w')"
    and c: "children' = c1 # rest1"
    by (auto split: option.splits)
  from Cons.prems(1) [OF _ a] have "view a c1 = fresh c" by simp
  moreover from Cons.IH [OF _ b] Cons.prems(1) have "map (view a) rest1 = map fresh rest" by simp
  ultimately show ?case using c by simp
qed

lemma reset_fresh:
  "reset t a w = Some (t', w') \<Longrightarrow> view a t' = fresh t"
proof (induction t arbitrary: w t' w')
  case (Sequence children currentIndex)
  from Sequence.prems obtain children' where
    r: "resetChildren children a w = Some (children', w')"
    and t: "t' = Sequence children' (currentIndex(a := None))"
    by (auto split: option.splits)
  from resetChildren_fresh [OF _ r] Sequence.IH t show ?case by simp
next
  case (Selector children currentIndex)
  from Selector.prems obtain children' where
    r: "resetChildren children a w = Some (children', w')"
    and t: "t' = Selector children' (currentIndex(a := None))"
    by (auto split: option.splits)
  from resetChildren_fresh [OF _ r] Selector.IH t show ?case by simp
next
  case (Inverter t)
  then show ?case by (auto split: option.splits)
next
  case (Condition c)
  then show ?case by auto
next
  case (Action action onEnter onExit isRunning)
  then show ?case by (auto split: option.splits)
next
  case (Parallel children requiredSuccesses statuses)
  from Parallel.prems obtain children' where
    r: "resetChildren children a w = Some (children', w')"
    and t: "t' = Parallel children' requiredSuccesses (statuses(a := None))"
    by (auto split: option.splits)
  from resetChildren_fresh [OF _ r] Parallel.IH t show ?case by simp
next
  case (RepeatUntilFailure t)
  then show ?case by (auto split: option.splits)
next
  case (Wait duration timeElapsed)
  then show ?case by auto
qed

lemma resetChildren_other:
  assumes "\<And>c w t' w'. c \<in> set children \<Longrightarrow> reset c a w = Some (t', w') \<Longrightarrow> view b t' = view b c"
    and "resetChildren children a w = Some (children', w')"
  shows "map (view b) children' = map (view b) children"
  using assms
proof (induction children arbitrary: w children')
  case Nil
  then show ?case by simp
next
  case (Cons c rest)
  from Cons.prems(2) obtain c1 w1 rest1 where
    a: "reset c a w = Some (c1, w1)" and b: "resetChildren rest a w1 = Some (rest1, w')"
    and c: "children' = c1 # rest1"
    by (auto split: option.splits)
  from Cons.prems(1) [OF _ a] have "view b c1 = view b c" by simp
  moreover from Cons.IH [OF _ b] Cons.prems(1) have "map (view b) rest1 = map (view b) rest" by simp
  ultimately show ?case using c by simp
qed

lemma reset_other:
  "b \<noteq> a \<Longrightarrow> reset t a w = Some (t', w') \<Longrightarrow> view b t' = view b t"
proof (induction t arbitrary: w t' w')
  case (Sequence children currentIndex)
  from Sequence.prems obtain children' where
    r: "resetChildren children a w = Some (children', w')"
    and t: "t' = Sequence children' (currentIndex(a := None))"
    by (auto split: option.splits)
  from resetChildren_other [OF _ r] Sequence.IH Sequence.prems(1) t show ?case by simp
next
  case (Selector children currentIndex)
  from Selector.prems obtain children' where
    r: "resetChildren children a w = Some (children', w')"
    and t: "t' = Selector children' (currentIndex(a := None))"
    by (auto split: option.splits)
  from resetChildren_other [OF _ r] Selector.IH Selector.prems(1) t show ?case by simp
next
  case (Inverter t)
  then show ?case by (auto split: option.splits)
next
  case (Condition c)
  then show ?case by auto
next
  case (Action action onEnter onExit isRunning)
  then show ?case by (auto split: option.splits)
next
  case (Parallel children requiredSuccesses statuses)
  from Parallel.prems obtain children' where
    r: "resetChildren children a w = Some (children', w')"
    and t: "t' = Parallel children' requiredSuccesses (statuses(a := None))"
    by (auto split: option.splits)
  from resetChildren_other [OF _ r] Parallel.IH Parallel.prems(1) t show ?case by simp
next
  case (RepeatUntilFailure t)
  then show ?case by (auto split: option.splits)
next
  case (Wait duration timeElapsed)
  then show ?case by auto
qed



lemma view_comp [simp]: "view a \<circ> view a = view a"
  by (rule ext) simp

lemma sameOutcome_sym: "sameOutcome a r1 r2 \<Longrightarrow> sameOutcome a r2 r1"
  by (auto simp: sameOutcome_def split: option.splits)

lemma sameOutcome_trans: "sameOutcome a r1 r2 \<Longrightarrow> sameOutcome a r2 r3 \<Longrightarrow> sameOutcome a r1 r3"
  by (auto simp: sameOutcome_def split: option.splits)

lemma execute_Sequence:
  "execute (Sequence children currentIndex) agentId w deltaTime =
     (if length children \<le> agentIndex currentIndex agentId
      then Some (SUCCESS,
                 Sequence children (currentIndex(agentId \<mapsto> agentIndex currentIndex agentId)), w)
      else (case execute (children ! agentIndex currentIndex agentId) agentId w deltaTime of
              None \<Rightarrow> None
            | Some (status, child', w') \<Rightarrow>
                Some (if status = RUNNING then RUNNING
                      else if status = FAILURE then FAILURE
                      else if length children \<le> agentIndex currentIndex agentId + 1 then SUCCESS
                      else RUNNING,
                      Sequence (children[agentIndex currentIndex agentId := child'])
                        (currentIndex(agentId \<mapsto>
                           (if status = RUNNING then agentIndex currentIndex agentId
                            else if status = FAILURE then 0
                            else if length children \<le> agentIndex currentIndex agentId + 1 then 0
                            else agentIndex currentIndex agentId + 1))),
                      w')))"
  by (cases "currentIndex agentId")
     (auto simp: agentIndex_def Let_def fun_upd_idem split: option.splits)

lemma execute_Selector:
  "execute (Selector children currentIndex) agentId w deltaTime =
     (if length children \<le> agentIndex currentIndex agentId
      then Some (FAILURE,
                 Selector children (currentIndex(agentId \<mapsto> agentIndex currentIndex agentId)), w)
      else (case execute (children ! agentIndex currentIndex agentId) agentId w deltaTime of
              None \<Rightarrow> None
            | Some (status, child', w') \<Rightarrow>
                Some (if status = RUNNING then RUNNING
                      else if status = SUCCESS then SUCCESS
                      else if length children \<le> agentIndex currentIndex agentId + 1 then FAILURE
                      else RUNNING,
                      Selector (children[agentIndex currentIndex agentId := child'])
                        (currentIndex(agentId \<mapsto>
                           (if status = RUNNING then agentIndex currentIndex agentId
                            else if status = SUCCESS then 0
                            else if length children \<le> agentIndex currentIndex agentId + 1 then 0
                            else agentIndex currentIndex agentId + 1))),
                      w')))"
  by (cases "currentIndex agentId")
     (auto simp: agentIndex_def Let_def fun_upd_idem split: option.splits)


lemma reset_same:
  assumes "view a t1 = view a t2"
  shows "case reset t1 a w of
           None \<Rightarrow> reset t2 a w = None
         | Some (u1, w1) \<Rightarrow> (\<exists>u2. reset t2 a w = Some (u2, w1) \<and> view a u1 = view a u2)"
proof -
  have w: "map_option snd (reset t1 a w) = map_option snd (reset t2 a w)"
    using reset_world [of t1 a w] reset_world [of t2 a w] assms by simp
  have f: "fresh t1 = fresh t2"
    using fresh_view [of a t1] fresh_view [of a t2] assms by simp
  show ?thesis
  proof (cases "reset t1 a w")
    case None
    with w show ?thesis by simp
  next
    case (Some p)
    obtain u1 w1 where p: "p = (u1, w1)" by (cases p)
    from w Some p obtain u2 where r2: "reset t2 a w = Some (u2, w1)"
      by (cases "reset t2 a w") auto
    from reset_fresh [OF r2] reset_fresh [of t1 a w u1 w1] Some p f
    have "view a u1 = view a u2" by simp
    with Some p r2 show ?thesis by simp
  qed
qed

lemma forEach_view:
  assumes "\<And>c w. c \<in> set children \<Longrightarrow>
             sameOutcome a (execute c a w deltaTime) (execute (view a c) a w deltaTime)"
  shows "forEachSame a (parallelForEach children index statuses a w deltaTime counts)
           (parallelForEach (map (view a) children) index statuses a w deltaTime counts)"
  using assms
proof (induction children arbitrary: index statuses w counts)
  case Nil
  then show ?case by (simp add: forEachSame_def)
next
  case (Cons c rest)
  have h: "sameOutcome a (execute c a w deltaTime) (execute (view a c) a w deltaTime)"
    by (rule Cons.prems) simp
  have r: "forEachSame a (parallelForEach rest i s a w1 deltaTime c1)
             (parallelForEach (map (view a) rest) i s a w1 deltaTime c1)" for i s w1 c1
    by (rule Cons.IH) (simp add: Cons.prems)
  show ?case
  proof (cases "index < length statuses \<and> statuses ! index = RUNNING")
    case True
    show ?thesis
    proof (cases "execute c a w deltaTime")
      case None
      with h have "execute (view a c) a w deltaTime = None" by (simp add: sameOutcome_def)
      with None True show ?thesis by (simp add: forEachSame_def)
    next
      case (Some p)
      obtain st c1 w1 where p: "p = (st, c1, w1)" by (cases p)
      from h Some p obtain c2 where e2: "execute (view a c) a w deltaTime = Some (st, c2, w1)"
        and v: "view a c1 = view a c2"
        by (auto simp: sameOutcome_def split: option.splits)
      from r [of "index + 1" "statuses[index := st]" w1
          "countStatus (statuses[index := st]) index counts"] True Some p e2 v
      show ?thesis
        by (auto simp: forEachSame_def split: option.splits)
    qed
  next
    case False
    from r [of "index + 1" statuses w "countStatus statuses index counts"] False
    show ?thesis
      by (auto simp: forEachSame_def split: option.splits)
  qed
qed

lemma execute_view:
  "sameOutcome a (execute t a w deltaTime) (execute (view a t) a w deltaTime)"
proof (induction t arbitrary: w)
  case (Sequence children currentIndex)
  let ?i = "agentIndex currentIndex a"
  have i: "agentIndex (only a currentIndex) a = ?i" by (simp add: agentIndex_def)
  show ?case
  proof (cases "length children \<le> ?i")
    case True
    then show ?thesis
      by (simp only: view.simps execute_Sequence i length_map if_True)
         (simp add: sameOutcome_def)
  next
    case False
    then have m: "children ! ?i \<in> set children" by simp
    from Sequence.IH [OF m, of w] False show ?thesis
      by (simp only: view.simps execute_Sequence i length_map if_False)
         (auto simp: sameOutcome_def map_update split: option.splits)
  qed
next
  case (Selector children currentIndex)
  let ?i = "agentIndex currentIndex a"
  have i: "agentIndex (only a currentIndex) a = ?i" by (simp add: agentIndex_def)
  show ?case
  proof (cases "length children \<le> ?i")
    case True
    then show ?thesis
      by (simp only: view.simps execute_Selector i length_map if_True)
         (simp add: sameOutcome_def)
  next
    case False
    then have m: "children ! ?i \<in> set children" by simp
    from Selector.IH [OF m, of w] False show ?thesis
      by (simp only: view.simps execute_Selector i length_map if_False)
         (auto simp: sameOutcome_def map_update split: option.splits)
  qed
next
  case (Inverter t)
  from Inverter [of w] show ?case
    by (auto simp: sameOutcome_def split: option.splits)
next
  case (Condition c)
  show ?case by (simp add: sameOutcome_def)
next
  case (Action action onEnter onExit isRunning)
  show ?case
    by (auto simp: sameOutcome_def split: option.splits)
next
  case (Parallel children requiredSuccesses statuses)
  let ?old = "case statuses a of None \<Rightarrow> map (\<lambda>_. RUNNING) children | Some s \<Rightarrow> s"
  have o: "(case (if statuses a = None then statuses(a \<mapsto> map (\<lambda>_. RUNNING) children)
                  else statuses) a of None \<Rightarrow> [] | Some s \<Rightarrow> s) = ?old"
    by (auto split: option.splits)
  have o2: "(case (if only a statuses a = None
                   then (only a statuses)(a \<mapsto> map (\<lambda>_. RUNNING) (map (view a) children))
                   else only a statuses) a of None \<Rightarrow> [] | Some s \<Rightarrow> s) = ?old"
    by (auto split: option.splits)
  from forEach_view [of children a deltaTime 0 ?old w "(0, 0, 0)"] Parallel
  have f: "forEachSame a (parallelForEach children 0 ?old a w deltaTime (0, 0, 0))
           (parallelForEach (map (view a) children) 0 ?old a w deltaTime (0, 0, 0))"
    by blast
  show ?case
    using f
    by (simp only: view.simps execute.simps Let_def o o2 length_map)
       (auto simp: sameOutcome_def forEachSame_def split: option.splits)
next
  case (RepeatUntilFailure t)
  show ?case
  proof (cases "execute t a w deltaTime")
    case None
    with RepeatUntilFailure [of w] show ?thesis
      by (auto simp: sameOutcome_def split: option.splits)
  next
    case (Some p)
    obtain st c1 w1 where p: "p = (st, c1, w1)" by (cases p)
    from RepeatUntilFailure [of w] Some p obtain c2 where
      e2: "execute (view a t) a w deltaTime = Some (st, c2, w1)" and v: "view a c1 = view a c2"
      by (auto simp: sameOutcome_def split: option.splits)
    from reset_same [OF v, of w1] Some p e2 v show ?thesis
      by (auto simp: sameOutcome_def split: option.splits)
  qed
next
  case (Wait duration timeElapsed)
  show ?case
    by (auto simp: sameOutcome_def Let_def split: option.splits)
qed

lemma execute_same:
  assumes "view a t1 = view a t2"
  shows "sameOutcome a (execute t1 a w deltaTime) (execute t2 a w deltaTime)"
proof -
  have "sameOutcome a (execute t1 a w deltaTime) (execute (view a t2) a w deltaTime)"
    using execute_view [of a t1 w deltaTime] assms by simp
  moreover have "sameOutcome a (execute (view a t2) a w deltaTime) (execute t2 a w deltaTime)"
    by (rule sameOutcome_sym) (rule execute_view)
  ultimately show ?thesis by (rule sameOutcome_trans)
qed

section \<open>Correctness of the search\<close>

subsection \<open>Distances\<close>





subsection \<open>Edges and walks\<close>










subsection \<open>The choice of the current node\<close>






subsection \<open>Predecessor chains\<close>







subsection \<open>The invariant, piece by piece\<close>



subsection \<open>Every walk from the start meets the open set or ends in a closed node\<close>



subsection \<open>Relaxing one edge of the current node\<close>


subsection \<open>Relaxing all edges of the current node\<close>


subsection \<open>One iteration of the search loop\<close>


subsection \<open>The search loop returns a minimal path\<close>


subsection \<open>The nearest node\<close>









section \<open>findPath (C1)\<close>



section \<open>reset (C2)\<close>

text \<open>
  C2. After \<open>reset\<close> for agent \<open>a\<close> the tree holds no entry for \<open>a\<close> in any node: what
  \<open>a\<close> sees of it is the tree as constructed. What any other agent \<open>b\<close> sees of the
  tree is unchanged. And the next \<open>execute\<close> for \<open>a\<close> has the outcome of a first-ever
  execution: for every state \<open>t0\<close> of the shared tree in which \<open>a\<close> has no entry, every
  world and every time step, \<open>execute\<close> on the reset tree and on \<open>t0\<close> return the same
  status and the same world and leave the same entries for \<open>a\<close> (or neither returns).
\<close>

theorem reset_then_execute:
  assumes "reset t a w = Some (t', w')"
  shows "view a t' = fresh t \<and> \<not> hasNodeState t' a
    \<and> (\<forall>b. b \<noteq> a \<longrightarrow> view b t' = view b t)
    \<and> (\<forall>t0 w1 deltaTime. view a t0 = fresh t
          \<longrightarrow> sameOutcome a (execute t' a w1 deltaTime) (execute t0 a w1 deltaTime))"
proof -
  have v: "view a t' = fresh t" by (rule reset_fresh [OF assms])
  have n: "\<not> hasNodeState t' a"
    using hasNodeState_view [of a t'] v by simp
  have o: "\<forall>b. b \<noteq> a \<longrightarrow> view b t' = view b t"
    using reset_other [OF _ assms] by blast
  have e: "\<forall>t0 w1 deltaTime. view a t0 = fresh t
          \<longrightarrow> sameOutcome a (execute t' a w1 deltaTime) (execute t0 a w1 deltaTime)"
    using execute_same [of a t'] v by simp
  from v n o e show ?thesis by blast
qed

theorem reset_then_execute_witness:
  "reset exampleTree ''a'' () = Some (exampleTreeReset, ())
   \<and> view ''a'' exampleTreeReset = fresh exampleTree
   \<and> ''b'' \<noteq> ''a'' \<and> view ''b'' exampleTreeReset = view ''b'' exampleTree
   \<and> view ''a'' (fresh exampleTree) = fresh exampleTree
   \<and> sameOutcome ''a'' (execute exampleTreeReset ''a'' () 2) (execute (fresh exampleTree) ''a'' () 2)"
proof -
  have h: "reset exampleTree ''a'' () = Some (exampleTreeReset, ())"
    by (simp add: exampleTree_def exampleTreeReset_def fun_eq_iff)
  have f: "view ''a'' (fresh exampleTree) = fresh exampleTree"
    by (simp add: exampleTree_def fun_eq_iff only_def)
  from reset_then_execute [OF h] h f show ?thesis
    by simp
qed

section \<open>Sequence (C3)\<close>

text \<open>
  C3. One tick of a Sequence for an agent whose index (0 when the agent has no entry yet)
  points at a child: if that child returns RUNNING the Sequence returns RUNNING and the
  index stays; if it returns FAILURE the Sequence returns FAILURE and the index is 0; if it
  returns SUCCESS the index advances, and when the advanced index equals the child count
  the Sequence returns SUCCESS with the index back at 0, otherwise it returns RUNNING.
  The index stays a valid child position, and the entries of other agents are untouched.
\<close>

theorem sequence_step:
  assumes "index = agentIndex currentIndex agentId"
    and "index < length children"
    and "execute (children ! index) agentId w deltaTime = Some (status, child', w')"
  shows "(currentIndex agentId = None \<longrightarrow> index = 0)
    \<and> (\<exists>currentIndex'.
          execute (Sequence children currentIndex) agentId w deltaTime =
            Some (if status = RUNNING then RUNNING
                  else if status = FAILURE then FAILURE
                  else if index + 1 = length children then SUCCESS else RUNNING,
                  Sequence (children[index := child']) currentIndex', w')
        \<and> agentIndex currentIndex' agentId =
            (if status = RUNNING then index
             else if status = FAILURE then 0
             else if index + 1 = length children then 0 else index + 1)
        \<and> agentIndex currentIndex' agentId < length children
        \<and> (\<forall>other. other \<noteq> agentId \<longrightarrow> currentIndex' other = currentIndex other))"
  using assms
  by (cases status) (auto simp: agentIndex_def Let_def split: option.splits)

theorem sequence_step_witness:
  "(0::nat) = agentIndex Map.empty ''a'' \<and> (0::nat) < length [Wait 1 Map.empty, Wait 1 Map.empty]
   \<and> execute ([Wait 1 Map.empty, Wait 1 Map.empty] ! 0) ''a'' () 2 = Some (SUCCESS, Wait 1 Map.empty, ())
   \<and> (\<exists>currentIndex'.
         execute (Sequence [Wait 1 Map.empty, Wait 1 Map.empty] Map.empty) ''a'' () 2 =
           Some (RUNNING, Sequence [Wait 1 Map.empty, Wait 1 Map.empty] currentIndex', ())
       \<and> agentIndex currentIndex' ''a'' = 1)"
proof -
  have h1: "(0::nat) = agentIndex Map.empty ''a''" by (simp add: agentIndex_def)
  have h2: "(0::nat) < length [Wait 1 Map.empty, Wait 1 Map.empty :: unit BehaviorNode]" by simp
  have h3: "execute ([Wait 1 Map.empty, Wait 1 Map.empty] ! 0) ''a'' () 2 = Some (SUCCESS, Wait 1 Map.empty, ())"
    by (simp add: Let_def)
  from sequence_step [OF h1 h2 h3] h1 h2 h3 show ?thesis by simp
qed

section \<open>Parallel (C4)\<close>



section \<open>removeAgent (C5)\<close>

text \<open>
  C5, as amended. \<open>removeAgent(id)\<close> removes the agent, and with it the agent's
  blackboard, from the registry of the orchestrator and leaves every other agent as it
  was. It does not touch any behavior tree: the per-agent entries that behavior nodes
  hold for that id stay until \<open>reset\<close> is called for the agent.
\<close>

theorem removeAgent_effect:
  "getAgent (aiSystem (worldRemoveAgent world ident)) ident = None
   \<and> (\<forall>other. other \<noteq> ident \<longrightarrow>
         getAgent (aiSystem (worldRemoveAgent world ident)) other = getAgent (aiSystem world) other)
   \<and> trees (worldRemoveAgent world ident) = trees world"
  by (simp add: worldRemoveAgent_def removeAgent_def getAgent_def delete_conv)

theorem removeAgent_effect_witness:
  "''b'' \<noteq> ''a''
   \<and> getAgent (aiSystem (worldRemoveAgent exampleWorldTicked ''b'')) ''a''
       = Some (setBehaviorTree exampleAgent 0)
   \<and> getAgent (aiSystem (worldRemoveAgent exampleWorldTicked ''a'')) ''a'' = None
   \<and> trees (worldRemoveAgent exampleWorldTicked ''a'') 0
       = Some (BehaviorTree (Wait 1 [''a'' \<mapsto> 2 / 5]))"
  using removeAgent_effect [of exampleWorldTicked "''b''"]
    removeAgent_effect [of exampleWorldTicked "''a''"]
  by (simp add: exampleWorldTicked_def getAgent_def)

text \<open>
  After one \<open>update(0.4)\<close> the shared \<open>Wait(1)\<close> holds the elapsed time of agent
  \<open>''a''\<close>; \<open>removeAgent(''a'')\<close> unregisters the agent and the entry is still there.
\<close>

theorem removeAgent_leaves_node_state_counterexample:
  "systemUpdate exampleWorld (2 / 5) = Some exampleWorldTicked
   \<and> getAgent (aiSystem (worldRemoveAgent exampleWorldTicked ''a'')) ''a'' = None
   \<and> treeHasState (worldRemoveAgent exampleWorldTicked ''a'') 0 ''a''"
  by (simp add: systemUpdate_def agentUpdate_def treeExecute_def exampleWorld_def
      exampleWorldTicked_def newWait_def Let_def setBehaviorTree_def exampleAgent_def newAgent_def
      worldRemoveAgent_def removeAgent_def getAgent_def treeHasState_def)

section \<open>Behavior factories (C6)\<close>

text \<open>
  C6, as amended. Each of the four factory helpers returns a single Action node.
  The chase node's \<open>onEnter\<close> establishes \<open>chaseTimer\<close>, and after the node exits (a
  status other than RUNNING) or is reset while active, the path is empty, the target is
  unset and \<open>chaseTimer\<close> is gone. The patrol node's \<open>onEnter\<close> establishes
  \<open>patrolIndex\<close> and the path to the first point, and after the node exits or is reset
  while active the path is empty. The wander and flee nodes have neither hook: their
  reset clears the node's own flag and changes nothing on the agent.
\<close>

theorem factory_hooks:
  "createChaseBehavior targetSelector updateRate =
      Action (chaseAction targetSelector updateRate) (Some chaseOnEnter) (Some chaseOnExit) Map.empty
   \<and> createPatrolBehavior points loop =
      Action (patrolAction points loop) (Some (patrolOnEnter points)) (Some patrolOnExit) Map.empty
   \<and> createWanderBehavior radius minDistance =
      Action (wanderAction radius minDistance) None None Map.empty
   \<and> createFleeFromBehavior targetSelector fleeDistance =
      Action (fleeAction targetSelector fleeDistance) None None Map.empty
   \<and> (\<forall>c. \<exists>c1. chaseOnEnter c = Some c1 \<and> blackboard (self c1) ''chaseTimer'' = Some (BNumber 0))
   \<and> (\<forall>isRunning agentId c deltaTime status node' c'.
         execute (Action (chaseAction targetSelector updateRate) (Some chaseOnEnter) (Some chaseOnExit)
                    isRunning) agentId c deltaTime = Some (status, node', c')
         \<and> status \<noteq> RUNNING
       \<longrightarrow> path (self c') = [] \<and> currentTarget (self c') = None
           \<and> blackboard (self c') ''chaseTimer'' = None)
   \<and> (\<forall>isRunning agentId c node' c'.
         reset (Action (chaseAction targetSelector updateRate) (Some chaseOnEnter) (Some chaseOnExit)
                  isRunning) agentId c = Some (node', c')
         \<and> wasRunning isRunning agentId
       \<longrightarrow> path (self c') = [] \<and> currentTarget (self c') = None
           \<and> blackboard (self c') ''chaseTimer'' = None)
   \<and> (\<forall>c. \<exists>c1. patrolOnEnter points c = Some c1
         \<and> blackboard (self c1) ''patrolIndex'' = Some (BNumber 0)
         \<and> (points \<noteq> [] \<longrightarrow> path (self c1) = [points ! 0]))
   \<and> (\<forall>isRunning agentId c deltaTime status node' c'.
         execute (Action (patrolAction points loop) (Some (patrolOnEnter points)) (Some patrolOnExit)
                    isRunning) agentId c deltaTime = Some (status, node', c')
         \<and> status \<noteq> RUNNING
       \<longrightarrow> path (self c') = [])
   \<and> (\<forall>isRunning agentId c node' c'.
         reset (Action (patrolAction points loop) (Some (patrolOnEnter points)) (Some patrolOnExit)
                  isRunning) agentId c = Some (node', c')
         \<and> wasRunning isRunning agentId
       \<longrightarrow> path (self c') = [])
   \<and> (\<forall>isRunning agentId c.
         reset (Action (wanderAction radius minDistance) None None isRunning) agentId c =
           Some (Action (wanderAction radius minDistance) None None (isRunning(agentId := None)), c))
   \<and> (\<forall>isRunning agentId c.
         reset (Action (fleeAction targetSelector fleeDistance) None None isRunning) agentId c =
           Some (Action (fleeAction targetSelector fleeDistance) None None (isRunning(agentId := None)), c))"
proof -
  have f1: "createChaseBehavior targetSelector updateRate =
      Action (chaseAction targetSelector updateRate) (Some chaseOnEnter) (Some chaseOnExit) Map.empty"
    by (simp add: createChaseBehavior_def newAction_def)
  have f2: "createPatrolBehavior points loop =
      Action (patrolAction points loop) (Some (patrolOnEnter points)) (Some patrolOnExit) Map.empty"
    by (simp add: createPatrolBehavior_def newAction_def)
  have f3: "createWanderBehavior radius minDistance =
      Action (wanderAction radius minDistance) None None Map.empty"
    by (simp add: createWanderBehavior_def newAction_def)
  have f4: "createFleeFromBehavior targetSelector fleeDistance =
      Action (fleeAction targetSelector fleeDistance) None None Map.empty"
    by (simp add: createFleeFromBehavior_def newAction_def)
  have c0: "\<forall>c. \<exists>c1. chaseOnEnter c = Some c1 \<and> blackboard (self c1) ''chaseTimer'' = Some (BNumber 0)"
    by (simp add: chaseOnEnter_def setBlackboardValue_def)
  have c1: "\<forall>isRunning agentId c deltaTime status node' c'.
         execute (Action (chaseAction targetSelector updateRate) (Some chaseOnEnter) (Some chaseOnExit)
                    isRunning) agentId c deltaTime = Some (status, node', c')
         \<and> status \<noteq> RUNNING
       \<longrightarrow> path (self c') = [] \<and> currentTarget (self c') = None
           \<and> blackboard (self c') ''chaseTimer'' = None"
  proof (intro allI impI)
    fix isRunning agentId c deltaTime status node' c'
    assume h: "execute (Action (chaseAction targetSelector updateRate) (Some chaseOnEnter)
                 (Some chaseOnExit) isRunning) agentId c deltaTime = Some (status, node', c')
               \<and> status \<noteq> RUNNING"
    from action_exit [of _ _ chaseOnExit] h obtain c2 where "chaseOnExit c2 = Some c'" by blast
    then show "path (self c') = [] \<and> currentTarget (self c') = None
           \<and> blackboard (self c') ''chaseTimer'' = None"
      by (rule chaseOnExit_clears)
  qed
  have c2: "\<forall>isRunning agentId c node' c'.
         reset (Action (chaseAction targetSelector updateRate) (Some chaseOnEnter) (Some chaseOnExit)
                  isRunning) agentId c = Some (node', c')
         \<and> wasRunning isRunning agentId
       \<longrightarrow> path (self c') = [] \<and> currentTarget (self c') = None
           \<and> blackboard (self c') ''chaseTimer'' = None"
  proof (intro allI impI)
    fix isRunning agentId c node' c'
    assume h: "reset (Action (chaseAction targetSelector updateRate) (Some chaseOnEnter)
                 (Some chaseOnExit) isRunning) agentId c = Some (node', c')
               \<and> wasRunning isRunning agentId"
    from action_reset_running [of _ _ chaseOnExit] h have "chaseOnExit c = Some c'" by blast
    then show "path (self c') = [] \<and> currentTarget (self c') = None
           \<and> blackboard (self c') ''chaseTimer'' = None"
      by (rule chaseOnExit_clears)
  qed
  have p0: "\<forall>c. \<exists>c1. patrolOnEnter points c = Some c1
         \<and> blackboard (self c1) ''patrolIndex'' = Some (BNumber 0)
         \<and> (points \<noteq> [] \<longrightarrow> path (self c1) = [points ! 0])"
    by (simp add: patrolOnEnter_def setBlackboardValue_def setPath_def Let_def)
  have p1: "\<forall>isRunning agentId c deltaTime status node' c'.
         execute (Action (patrolAction points loop) (Some (patrolOnEnter points)) (Some patrolOnExit)
                    isRunning) agentId c deltaTime = Some (status, node', c')
         \<and> status \<noteq> RUNNING
       \<longrightarrow> path (self c') = []"
  proof (intro allI impI)
    fix isRunning agentId c deltaTime status node' c'
    assume h: "execute (Action (patrolAction points loop) (Some (patrolOnEnter points))
                 (Some patrolOnExit) isRunning) agentId c deltaTime = Some (status, node', c')
               \<and> status \<noteq> RUNNING"
    from action_exit [of _ _ patrolOnExit] h obtain c2 where "patrolOnExit c2 = Some c'" by blast
    then show "path (self c') = []"
      by (rule patrolOnExit_clears)
  qed
  have p2: "\<forall>isRunning agentId c node' c'.
         reset (Action (patrolAction points loop) (Some (patrolOnEnter points)) (Some patrolOnExit)
                  isRunning) agentId c = Some (node', c')
         \<and> wasRunning isRunning agentId
       \<longrightarrow> path (self c') = []"
  proof (intro allI impI)
    fix isRunning agentId c node' c'
    assume h: "reset (Action (patrolAction points loop) (Some (patrolOnEnter points))
                 (Some patrolOnExit) isRunning) agentId c = Some (node', c')
               \<and> wasRunning isRunning agentId"
    from action_reset_running [of _ _ patrolOnExit] h have "patrolOnExit c = Some c'" by blast
    then show "path (self c') = []"
      by (rule patrolOnExit_clears)
  qed
  have w: "\<forall>isRunning agentId c.
         reset (Action (wanderAction radius minDistance) None None isRunning) agentId c =
           Some (Action (wanderAction radius minDistance) None None (isRunning(agentId := None)), c)"
    by (simp add: callHook_def)
  have f: "\<forall>isRunning agentId c.
         reset (Action (fleeAction targetSelector fleeDistance) None None isRunning) agentId c =
           Some (Action (fleeAction targetSelector fleeDistance) None None (isRunning(agentId := None)), c)"
    by (simp add: callHook_def)
  from f1 f2 f3 f4 c0 c1 c2 p0 p1 p2 w f show ?thesis
    by (intro conjI)
qed

theorem factory_hooks_witness:
  "wasRunning [''a'' \<mapsto> True] ''a''
   \<and> reset (Action (chaseAction exampleThreat (1 / 2)) (Some chaseOnEnter) (Some chaseOnExit)
              [''a'' \<mapsto> True]) ''a'' (exampleCtx\<lparr>self := setPath exampleAgent [(1, 0, 0)]\<rparr>)
       = Some (Action (chaseAction exampleThreat (1 / 2)) (Some chaseOnEnter) (Some chaseOnExit) Map.empty,
               exampleCtx)
   \<and> path (self exampleCtx) = []"
proof -
  have r: "wasRunning [''a'' \<mapsto> True] ''a''" by (simp add: wasRunning_def)
  have e: "reset (Action (chaseAction exampleThreat (1 / 2)) (Some chaseOnEnter) (Some chaseOnExit)
              [''a'' \<mapsto> True]) ''a'' (exampleCtx\<lparr>self := setPath exampleAgent [(1, 0, 0)]\<rparr>)
       = Some (Action (chaseAction exampleThreat (1 / 2)) (Some chaseOnEnter) (Some chaseOnExit) Map.empty,
               exampleCtx)"
    by (simp add: wasRunning_def callHook_def chaseOnExit_def exampleCtx_def setPath_def
        setTarget_def clearBlackboardValue_def exampleAgent_def newAgent_def)
  from factory_hooks [of exampleThreat "1 / 2" "[]" True 10 5 20]
  have "\<forall>isRunning agentId c node' c'.
         reset (Action (chaseAction exampleThreat (1 / 2)) (Some chaseOnEnter) (Some chaseOnExit)
                  isRunning) agentId c = Some (node', c')
         \<and> wasRunning isRunning agentId
       \<longrightarrow> path (self c') = [] \<and> currentTarget (self c') = None
           \<and> blackboard (self c') ''chaseTimer'' = None"
    by (elim conjE)
  with r e have "path (self exampleCtx) = []" by blast
  with r e show ?thesis by (intro conjI)
qed

text \<open>
  The flee node, run once next to a threat and then reset, leaves the path it has set on
  the agent.
\<close>

theorem flee_leaves_path_counterexample:
  "map_option (path \<circ> self \<circ> snd \<circ> snd)
     (executeThenReset (createFleeFromBehavior exampleThreat 20) ''a'' exampleCtx 1)
   = Some [(20, 0, 0)]"
  by (simp add: executeThenReset_def createFleeFromBehavior_def newAction_def callHook_def
      wasRunning_def fleeAction_def exampleThreat_def exampleCtx_def exampleAgent_simps
      vecSub_def Let_def sqrt_9 sqrt_400 followPath_def moveTowards_def setPath_def
      exampleTransform_def)

section \<open>moveTowards (C7)\<close>




section \<open>followPath (C8)\<close>

text \<open>
  C8. \<open>followPath\<close> returns true at once, changing nothing, when the path is empty.
  Otherwise it calls \<open>moveTowards\<close> on the waypoint at the cursor (which leaves the path
  and the cursor alone); on arrival it advances the cursor, and when that was the last
  waypoint it clears the path, sets the cursor to 0 and returns true in the same call; in
  every other case it returns false.
\<close>

theorem followPath_spec:
  "(path agent = [] \<longrightarrow> followPath agent deltaTime = Some (True, agent))
   \<and> (path agent \<noteq> [] \<and> currentPathIndex agent < length (path agent)
        \<and> moveTowards agent (path agent ! currentPathIndex agent) deltaTime = Some (reached, agent1)
      \<longrightarrow> followPath agent deltaTime =
            (if reached \<and> currentPathIndex agent + 1 = length (path agent)
               then Some (True, agent1\<lparr>currentPathIndex := currentPathIndex agent + 1\<rparr>
                                      \<lparr>path := [], currentPathIndex := 0\<rparr>)
             else if reached
               then Some (False, agent1\<lparr>currentPathIndex := currentPathIndex agent + 1\<rparr>)
             else Some (False, agent1))
          \<and> path agent1 = path agent \<and> currentPathIndex agent1 = currentPathIndex agent)"
proof -
  have a: "path agent = [] \<longrightarrow> followPath agent deltaTime = Some (True, agent)"
    by (simp add: followPath_def)
  have b: "followPath agent deltaTime =
            (if reached \<and> currentPathIndex agent + 1 = length (path agent)
               then Some (True, agent1\<lparr>currentPathIndex := currentPathIndex agent + 1\<rparr>
                                      \<lparr>path := [], currentPathIndex := 0\<rparr>)
             else if reached
               then Some (False, agent1\<lparr>currentPathIndex := currentPathIndex agent + 1\<rparr>)
             else Some (False, agent1))
          \<and> path agent1 = path agent \<and> currentPathIndex agent1 = currentPathIndex agent"
    if h: "path agent \<noteq> []" "currentPathIndex agent < length (path agent)"
      "moveTowards agent (path agent ! currentPathIndex agent) deltaTime = Some (reached, agent1)"
  proof -
    from moveTowards_keeps_path [OF h(3)]
    have k: "path agent1 = path agent" "currentPathIndex agent1 = currentPathIndex agent"
      by simp_all
    from h k show ?thesis
      by (auto simp: followPath_def Let_def)
  qed
  from a b show ?thesis by blast
qed

theorem followPath_spec_witness:
  "path (setPath exampleAgent [(0, 0, 0)]) \<noteq> []
   \<and> currentPathIndex (setPath exampleAgent [(0, 0, 0)]) < length (path (setPath exampleAgent [(0, 0, 0)]))
   \<and> moveTowards (setPath exampleAgent [(0, 0, 0)])
        (path (setPath exampleAgent [(0, 0, 0)]) ! currentPathIndex (setPath exampleAgent [(0, 0, 0)])) 1
       = Some (True, setPath exampleAgent [(0, 0, 0)])
   \<and> followPath (setPath exampleAgent [(0, 0, 0)]) 1 = Some (True, exampleAgent)"
proof -
  let ?a = "setPath exampleAgent [(0, 0, 0)]"
  have p: "path ?a = [(0, 0, 0)]" "currentPathIndex ?a = 0"
    by (simp_all add: setPath_def)
  have m: "moveTowards ?a (path ?a ! currentPathIndex ?a) 1 = Some (True, ?a)"
    by (simp add: moveTowards_def vecSub_def Let_def setPath_def exampleAgent_def newAgent_def
          exampleObject_def exampleTransform_def exampleConfig_def)
  have e: "?a\<lparr>currentPathIndex := currentPathIndex ?a + 1\<rparr>\<lparr>path := [], currentPathIndex := 0\<rparr>
           = exampleAgent"
    by (simp add: setPath_def exampleAgent_def newAgent_def)
  from followPath_spec [of ?a 1 True ?a] m p e show ?thesis
    by simp
qed

section \<open>connectNodes with a missing node (C9)\<close>

text \<open>
  C9. When \<open>fromId\<close> or \<open>toId\<close> is not a registered node, \<open>connectNodes\<close> returns
  normally, reports the error on the console and leaves the mesh exactly as it was.
\<close>

theorem connectNodes_missing:
  assumes "map_of (nodes mesh) fromId = None \<or> map_of (nodes mesh) toId = None"
  shows "connectNodes mesh fromId toId bidirectional = (mesh, [CannotConnectNodes fromId toId])"
  using assms by (auto simp: connectNodes_def split: option.splits)

theorem connectNodes_missing_witness:
  "(map_of (nodes (addNode newNavMesh 1 (0, 0, 0))) 1 = None
      \<or> map_of (nodes (addNode newNavMesh 1 (0, 0, 0))) 2 = None)
   \<and> connectNodes (addNode newNavMesh 1 (0, 0, 0)) 1 2 True =
       (addNode newNavMesh 1 (0, 0, 0), [CannotConnectNodes 1 2])"
proof -
  have h: "map_of (nodes (addNode newNavMesh 1 (0, 0, 0))) 1 = None
      \<or> map_of (nodes (addNode newNavMesh 1 (0, 0, 0))) 2 = None"
    by (simp add: addNode_def newNavMesh_def)
  from connectNodes_missing [OF h, of True] h show ?thesis by simp
qed

section \<open>Composites without children (C10)\<close>

text \<open>
  C10. A Sequence with zero children returns SUCCESS on every call of \<open>execute\<close>, and a
  Selector with zero children returns FAILURE, for every agent, every world, every time
  step and every content of the node's own index map. The node has no descendants, the
  world is returned as it was, and the only change is the node's own index entry for the
  agent, which is set to 0 when it was missing.
\<close>

theorem empty_composites:
  "execute (Sequence [] currentIndex) agentId w deltaTime =
     Some (SUCCESS,
           Sequence [] (if currentIndex agentId = None then currentIndex(agentId \<mapsto> 0) else currentIndex), w)
   \<and> execute (Selector [] currentIndex) agentId w deltaTime =
     Some (FAILURE,
           Selector [] (if currentIndex agentId = None then currentIndex(agentId \<mapsto> 0) else currentIndex), w)"
  by (simp add: Let_def)

end
